theory Spec2Isabelle
  imports Complex_Main "HOL-Library.AList" "HOL-Library.Word"
begin

unbundle bit_operations_syntax

section \<open>JARM response envelope (packages/jarm, jarm-auth-response.ts)\<close>

subsection \<open>Values\<close>

text \<open>
  The response parameters have the TypeScript type \<open>unknown\<close>: they are whatever
  \<open>JSON.parse\<close> or \<open>decodeJwt\<close> produced. An object is an association list that
  holds each key once; reading a member that is not there gives \<open>undefined\<close>, which is
  \<open>None\<close> here.
\<close>

datatype json =
    JNull
  | JBool bool
  | JNum rat
  | JStr string
  | JArr "json list"
  | JObj "(string \<times> json) list"

type_synonym obj = "(string \<times> json) list"

definition lookup :: "obj \<Rightarrow> string \<Rightarrow> json option" where
  "lookup ob k = map_of ob k"

fun get_member :: "json \<Rightarrow> string \<Rightarrow> json option" where
  "get_member (JObj ob) k = lookup ob k"
| "get_member _ k = None"

text \<open>JavaScript's \<open>!x\<close> on a defined value: \<open>null\<close>, \<open>false\<close>, \<open>0\<close> and the empty string are falsy.\<close>

fun falsy :: "json \<Rightarrow> bool" where
  "falsy JNull = True"
| "falsy (JBool b) = (\<not> b)"
| "falsy (JNum n) = (n = 0)"
| "falsy (JStr s) = (s = [])"
| "falsy (JArr _) = False"
| "falsy (JObj _) = False"

subsection \<open>Errors\<close>

text \<open>
  Every \<open>throw\<close> is a value. \<open>JarmAuthResponseValidationError\<close> carries its message;
  \<open>JarmReceivedErrorResponse\<close> carries its code and the response parameters that its
  message prints; \<open>ValiError\<close> is what \<open>v.parse\<close> throws; \<open>Thrown\<close> is anything thrown
  by a host capability or a helper of the jose package.
\<close>

datatype error =
    JarmAuthResponseValidationError string
  | JarmReceivedErrorResponse string json
  | ValiError
  | Thrown string

definition msg_jwe_missing_kid :: string where
  "msg_jwe_missing_kid =
     ''Jarm JWE is missing the protected header field '' @ [CHR 0x27] @ ''kid'' @ [CHR 0x27] @ ''.''"

definition msg_jws_missing_kid :: string where
  "msg_jws_missing_kid =
     ''Jarm JWS is missing the protected header field '' @ [CHR 0x27] @ ''kid'' @ [CHR 0x27] @ ''.''"

definition msg_not_signed_or_encrypted :: string where
  "msg_not_signed_or_encrypted =
     ''Jarm Auth Response must be either encrypted, signed, or signed and encrypted.''"

text \<open>The template literal prints an absent state as \<open>undefined\<close>.\<close>

definition msg_state_mismatch :: "string option \<Rightarrow> string" where
  "msg_state_mismatch st =
     ''State missmatch between auth request '' @ [CHR 0x27]
       @ (case st of None \<Rightarrow> ''undefined'' | Some s \<Rightarrow> s)
       @ [CHR 0x27] @ '' and the jarm-auth-response.''"

subsection \<open>Schemas (valibot)\<close>

text \<open>
  A field schema decides on the value of one member, \<open>None\<close> when the member is absent.
  An object schema is its entries in order; \<open>v.looseObject\<close> lets other members through.
\<close>

type_synonym fschema = "json option \<Rightarrow> bool"
type_synonym entries = "(string \<times> fschema) list"

definition v_string :: fschema where
  "v_string v = (case v of Some (JStr _) \<Rightarrow> True | _ \<Rightarrow> False)"

definition v_number :: fschema where
  "v_number v = (case v of Some (JNum _) \<Rightarrow> True | _ \<Rightarrow> False)"

definition v_unknown :: fschema where
  "v_unknown v = True"

definition v_optional :: "fschema \<Rightarrow> fschema" where
  "v_optional s v = (case v of None \<Rightarrow> True | Some _ \<Rightarrow> s v)"

definition v_nonOptional :: "fschema \<Rightarrow> fschema" where
  "v_nonOptional s v = (case v of None \<Rightarrow> False | Some _ \<Rightarrow> s v)"

definition v_omit :: "entries \<Rightarrow> string list \<Rightarrow> entries" where
  "v_omit es ks = filter (\<lambda>(k, s). k \<notin> set ks) es"

definition v_pick :: "entries \<Rightarrow> string list \<Rightarrow> entries" where
  "v_pick es ks = filter (\<lambda>(k, s). k \<in> set ks) es"

definition v_partial :: "entries \<Rightarrow> entries" where
  "v_partial es = map (\<lambda>(k, s). (k, v_optional s)) es"

definition v_required :: "entries \<Rightarrow> string list \<Rightarrow> entries" where
  "v_required es ks = map (\<lambda>(k, s). (k, if k \<in> set ks then v_nonOptional s else s)) es"

text \<open>Object spread \<open>{...a, ...b}\<close>: a key of \<open>b\<close> replaces the entry of \<open>a\<close> in place, a new key is appended.\<close>

definition spread :: "entries \<Rightarrow> entries \<Rightarrow> entries" where
  "spread a b = foldl (\<lambda>acc (k, s). AList.update k s acc) a b"

definition v_is :: "entries \<Rightarrow> json \<Rightarrow> bool" where
  "v_is es x = (case x of JObj ob \<Rightarrow> list_all (\<lambda>(k, s). s (lookup ob k)) es | _ \<Rightarrow> False)"

definition v_parse :: "entries \<Rightarrow> json \<Rightarrow> error + json" where
  "v_parse es x = (if v_is es x then Inr x else Inl ValiError)"

subsection \<open>What the module imports\<close>

text \<open>
  The helpers of the jose package (\<open>isJwe\<close>, \<open>isJws\<close>, \<open>decodeProtectedHeader\<close>,
  \<open>decodeJwt\<close>), \<open>JSON.parse\<close> and the two schemas of v-jarm-auth-response-params are
  imported by the module; they are parameters of the model.
\<close>

record deps =
  isJwe :: "string \<Rightarrow> bool"
  isJws :: "string \<Rightarrow> bool"
  decodeProtectedHeader :: "string \<Rightarrow> error + obj"
  decodeJwt :: "string \<Rightarrow> error + json"
  JSON_parse :: "string \<Rightarrow> error + json"
  vJarmAuthResponseErrorParams :: "json \<Rightarrow> bool"
  vJarmAuthResponse :: entries

text \<open>\<open>vAuthRequestParams\<close> (c-jarm-auth-response.ts); only typed members are kept.\<close>

record AuthRequestParams =
  state :: "string option"
  response_mode :: "string option"
  client_id :: string
  response_type :: string
  client_metadata :: json

text \<open>
  \<open>JarmDirectPostJwtAuthResponseValidationContext\<close>: the capabilities of the host.
  Each takes what the code passes and returns or throws.
\<close>

record ctx =
  decryptCompact :: "string \<Rightarrow> json \<Rightarrow> error + string"
  verifyJwt :: "string \<Rightarrow> json \<Rightarrow> error + unit"
  getParams :: "json \<Rightarrow> error + AuthRequestParams"

text \<open>The calls a run makes, in order.\<close>

datatype event =
    DecryptCompact string json
  | GetParams json
  | VerifyJwt string json
  | ValidateParams "string option" json

record validated =
  authRequestParams :: AuthRequestParams
  authResponseParams :: json
  type :: string

subsection \<open>The functions\<close>

definition parseJarmAuthResponseParams :: "deps \<Rightarrow> entries \<Rightarrow> json \<Rightarrow> error + json" where
  "parseJarmAuthResponseParams im schema responseParams =
     (if vJarmAuthResponseErrorParams im responseParams
      then Inl (JarmReceivedErrorResponse ''PARSE_ERROR'' responseParams)
      else v_parse schema responseParams)"

definition decryptJarmAuthResponse ::
  "deps \<Rightarrow> ctx \<Rightarrow> string \<Rightarrow> (error + string) \<times> event list" where
  "decryptJarmAuthResponse im c response =
     (case decodeProtectedHeader im response of
        Inl e \<Rightarrow> (Inl e, [])
      | Inr responseProtectedHeader \<Rightarrow>
          (case lookup responseProtectedHeader ''kid'' of
             None \<Rightarrow> (Inl (JarmAuthResponseValidationError msg_jwe_missing_kid), [])
           | Some kid \<Rightarrow>
               if falsy kid
               then (Inl (JarmAuthResponseValidationError msg_jwe_missing_kid), [])
               else (decryptCompact c response kid, [DecryptCompact response kid])))"

text \<open>
  \<open>vJarmAuthResponseEncrypted\<close> and \<open>jarmAuthResponseEncryptedValidate\<close>, declared in the
  last part of jarm-auth-response.test.ts (lines 278 to 303). The schema is built over
  the base schema \<open>vJarmAuthResponse\<close>; the check reads only the state of the request.
\<close>

definition vJarmAuthResponseEncrypted :: "entries \<Rightarrow> entries" where
  "vJarmAuthResponseEncrypted base =
     spread
       (spread (v_omit base [''iss'', ''aud'', ''exp''])
               (v_partial (v_pick base [''iss'', ''aud'', ''exp''])))
       [(''vp_token'', v_string),
        (''presentation_submission'', v_unknown),
        (''nonce'', v_optional v_string)]"

text \<open>
  \<open>authRequest.state !== authResponse.state\<close>, where the request's state is a string or
  \<open>undefined\<close>: strictly equal are two absent states and two equal strings.
\<close>

definition state_differs :: "string option \<Rightarrow> json option \<Rightarrow> bool" where
  "state_differs a b =
     (case (a, b) of
        (None, None) \<Rightarrow> False
      | (Some s, Some (JStr t)) \<Rightarrow> s \<noteq> t
      | _ \<Rightarrow> True)"

definition jarmAuthResponseEncryptedValidate :: "string option \<Rightarrow> json \<Rightarrow> error + unit" where
  "jarmAuthResponseEncryptedValidate authRequest_state authResponse =
     (if state_differs authRequest_state (get_member authResponse ''state'')
      then Inl (JarmAuthResponseValidationError (msg_state_mismatch authRequest_state))
      else Inr ())"

text \<open>
  Modelled from the spec: the declaration of \<open>vJarmDirectPostJwtParams\<close> (module
  v-jarm-direct-post-jwt-auth-response-params) is missing. Section 4.8 has the
  parameters parsed with \<open>iss\<close>, \<open>aud\<close>, \<open>exp\<close> required on the signed paths only, which is
  what \<open>v.required\<close> adds to the schema that the sources hold as
  \<open>vJarmAuthResponseEncrypted\<close>.
\<close>

definition vJarmDirectPostJwtParams :: "deps \<Rightarrow> entries" where
  "vJarmDirectPostJwtParams im = vJarmAuthResponseEncrypted (vJarmAuthResponse im)"

text \<open>
  Modelled from the spec: the declaration of \<open>jarmAuthResponseDirectPostValidateParams\<close>
  (same module) is missing. Section 4.8 has validation enforce
  \<open>authRequest.state === authResponse.state\<close>, a mismatch giving \<open>StateMismatch\<close>; this
  is the check of \<open>jarmAuthResponseEncryptedValidate\<close>, with its error.
\<close>

definition jarmAuthResponseDirectPostValidateParams :: "AuthRequestParams \<Rightarrow> json \<Rightarrow> error + unit" where
  "jarmAuthResponseDirectPostValidateParams req resp =
     (if state_differs (state req) (get_member resp ''state'')
      then Inl (JarmAuthResponseValidationError (msg_state_mismatch (state req)))
      else Inr ())"

text \<open>
  The two branches of \<open>jarmAuthResponseDirectPostJwtValidate\<close> that fill
  \<open>authRequestParams\<close> and \<open>authResponseParams\<close>: the signed one (lines 98 to 116) and
  the other (lines 118 to 124).
\<close>

definition signed_branch ::
  "deps \<Rightarrow> ctx \<Rightarrow> string \<Rightarrow> (error + AuthRequestParams \<times> json) \<times> event list" where
  "signed_branch im c decryptedResponse =
     (case decodeProtectedHeader im decryptedResponse of
        Inl e \<Rightarrow> (Inl e, [])
      | Inr jwsProtectedHeader \<Rightarrow>
     (case decodeJwt im decryptedResponse of
        Inl e \<Rightarrow> (Inl e, [])
      | Inr jwsPayload \<Rightarrow>
     (case parseJarmAuthResponseParams im
             (v_required (vJarmDirectPostJwtParams im) [''iss'', ''aud'', ''exp'']) jwsPayload of
        Inl e \<Rightarrow> (Inl e, [])
      | Inr responseParams \<Rightarrow>
     (case getParams c responseParams of
        Inl e \<Rightarrow> (Inl e, [GetParams responseParams])
      | Inr req \<Rightarrow>
     (case lookup jwsProtectedHeader ''kid'' of
        None \<Rightarrow> (Inl (JarmAuthResponseValidationError msg_jws_missing_kid),
                  [GetParams responseParams])
      | Some kid \<Rightarrow>
          if falsy kid
          then (Inl (JarmAuthResponseValidationError msg_jws_missing_kid),
                [GetParams responseParams])
          else
     (case verifyJwt c decryptedResponse kid of
        Inl e \<Rightarrow> (Inl e, [GetParams responseParams, VerifyJwt decryptedResponse kid])
      | Inr u \<Rightarrow> (Inr (req, responseParams),
                  [GetParams responseParams, VerifyJwt decryptedResponse kid])))))))"

definition unsigned_branch ::
  "deps \<Rightarrow> ctx \<Rightarrow> string \<Rightarrow> (error + AuthRequestParams \<times> json) \<times> event list" where
  "unsigned_branch im c decryptedResponse =
     (case JSON_parse im decryptedResponse of
        Inl e \<Rightarrow> (Inl e, [])
      | Inr jsonResponse \<Rightarrow>
     (case parseJarmAuthResponseParams im (vJarmDirectPostJwtParams im) jsonResponse of
        Inl e \<Rightarrow> (Inl e, [])
      | Inr parsed \<Rightarrow>
     (case getParams c parsed of
        Inl e \<Rightarrow> (Inl e, [GetParams parsed])
      | Inr req \<Rightarrow> (Inr (req, parsed), [GetParams parsed]))))"

text \<open>Lines 81 to 84: the response itself, or its plaintext when it is a JWE.\<close>

definition decryptedResponse ::
  "deps \<Rightarrow> ctx \<Rightarrow> string \<Rightarrow> (error + string) \<times> event list" where
  "decryptedResponse im c response =
     (if isJwe im response then decryptJarmAuthResponse im c response
      else (Inr response, []))"

definition jarmAuthResponseDirectPostJwtValidate ::
  "deps \<Rightarrow> ctx \<Rightarrow> string \<Rightarrow> (error + validated) \<times> event list" where
  "jarmAuthResponseDirectPostJwtValidate im c response =
     (let responseIsEncrypted = isJwe im response in
      case decryptedResponse im c response of
        (Inl e, tr) \<Rightarrow> (Inl e, tr)
      | (Inr dr, tr) \<Rightarrow>
          let responseIsSigned = isJws im dr in
          if \<not> responseIsEncrypted \<and> \<not> responseIsSigned
          then (Inl (JarmAuthResponseValidationError msg_not_signed_or_encrypted), tr)
          else
            (case (if responseIsSigned then signed_branch im c dr
                   else unsigned_branch im c dr) of
               (Inl e, tr') \<Rightarrow> (Inl e, tr @ tr')
             | (Inr (req, resp), tr') \<Rightarrow>
                 (case jarmAuthResponseDirectPostValidateParams req resp of
                    Inl e \<Rightarrow> (Inl e, tr @ tr' @ [ValidateParams (state req) resp])
                  | Inr u \<Rightarrow>
                      (Inr \<lparr> authRequestParams = req, authResponseParams = resp,
                             type = (if responseIsSigned \<and> responseIsEncrypted
                                     then ''signed encrypted''
                                     else if responseIsEncrypted then ''encrypted''
                                     else ''signed'') \<rparr>,
                       tr @ tr' @ [ValidateParams (state req) resp]))))"

subsection \<open>An instance to run the functions on\<close>

text \<open>
  Compact serialisations are told apart by their number of dot-separated segments; the
  decoders of this instance return a fixed header and payload.
\<close>

fun segments :: "string \<Rightarrow> string list" where
  "segments [] = [[]]"
| "segments (ch # cs) =
     (if ch = CHR ''.'' then [] # segments cs
      else (case segments cs of [] \<Rightarrow> [[ch]] | seg # segs \<Rightarrow> (ch # seg) # segs))"

definition example_error_params :: entries where
  "example_error_params =
     [(''error'', v_string), (''state'', v_optional v_string),
      (''error_description'', v_optional v_string), (''error_uri'', v_optional v_string)]"

definition example_base :: entries where
  "example_base =
     [(''state'', v_optional v_string), (''iss'', v_string),
      (''exp'', v_number), (''aud'', v_string)]"

definition example_deps :: "obj \<Rightarrow> json \<Rightarrow> deps" where
  "example_deps hdr payload =
     \<lparr> isJwe = (\<lambda>s. length (segments s) = 5),
       isJws = (\<lambda>s. length (segments s) = 3),
       decodeProtectedHeader = (\<lambda>s. Inr hdr),
       decodeJwt = (\<lambda>s. Inr payload),
       JSON_parse = (\<lambda>s. Inr payload),
       vJarmAuthResponseErrorParams = v_is example_error_params,
       vJarmAuthResponse = example_base \<rparr>"

definition example_request :: "string option \<Rightarrow> AuthRequestParams" where
  "example_request st =
     \<lparr> state = st, response_mode = Some ''direct_post.jwt'', client_id = ''rp'',
       response_type = ''vp_token'', client_metadata = JObj [] \<rparr>"

definition example_ctx :: "string \<Rightarrow> string option \<Rightarrow> ctx" where
  "example_ctx plaintext st =
     \<lparr> decryptCompact = (\<lambda>jwe kid. Inr plaintext),
       verifyJwt = (\<lambda>jws kid. Inr ()),
       getParams = (\<lambda>ps. Inr (example_request st)) \<rparr>"

definition example_header :: obj where
  "example_header = [(''alg'', JStr ''ES256''), (''kid'', JStr ''key-1'')]"

definition example_payload :: json where
  "example_payload =
     JObj [(''vp_token'', JStr ''token''), (''presentation_submission'', JObj []),
           (''state'', JStr ''s1'')]"

definition example_signed_payload :: json where
  "example_signed_payload =
     JObj [(''iss'', JStr ''https://example-issuer.com''),
           (''aud'', JStr ''https://example-relying-party.com''),
           (''exp'', JNum 9999999999),
           (''vp_token'', JStr ''token''), (''presentation_submission'', JObj []),
           (''state'', JStr ''s1'')]"

definition example_error_payload :: json where
  "example_error_payload = JObj [(''error'', JStr ''access_denied''), (''state'', JStr ''s1'')]"

definition example_header_without_kid :: obj where
  "example_header_without_kid = [(''alg'', JStr ''ES256'')]"

definition example_result :: "json \<Rightarrow> string \<Rightarrow> validated" where
  "example_result ps ty =
     \<lparr> authRequestParams = example_request (Some ''s1''), authResponseParams = ps, type = ty \<rparr>"

section \<open>Key generation (generateKeyPair)\<close>

text \<open>
  A JavaScript number is a finite value, \<open>NaN\<close> or an infinity; every comparison with
  \<open>NaN\<close> is false. An option of the caller is any JavaScript value: the check
  \<open>typeof modulusLength !== 'number'\<close> is there for the values that are not numbers.
\<close>

datatype jsnumber = Finite rat | NaN | PosInfinity | NegInfinity

fun js_less :: "jsnumber \<Rightarrow> jsnumber \<Rightarrow> bool" where
  "js_less NaN _ = False"
| "js_less _ NaN = False"
| "js_less (Finite a) (Finite b) = (a < b)"
| "js_less (Finite a) PosInfinity = True"
| "js_less (Finite a) NegInfinity = False"
| "js_less PosInfinity _ = False"
| "js_less NegInfinity NegInfinity = False"
| "js_less NegInfinity _ = True"

datatype jsvalue =
    Undefined
  | Null
  | Boolean bool
  | Number jsnumber
  | String string
  | BigInt int
  | Object

fun typeof :: "jsvalue \<Rightarrow> string" where
  "typeof Undefined = ''undefined''"
| "typeof Null = ''object''"
| "typeof (Boolean _) = ''boolean''"
| "typeof (Number _) = ''number''"
| "typeof (String _) = ''string''"
| "typeof (BigInt _) = ''bigint''"
| "typeof Object = ''object''"

text \<open>\<open>a ?? b\<close>: \<open>b\<close> when \<open>a\<close> is \<open>undefined\<close> or \<open>null\<close>.\<close>

fun nullish_or :: "jsvalue \<Rightarrow> jsvalue \<Rightarrow> jsvalue" where
  "nullish_or Undefined b = b"
| "nullish_or Null b = b"
| "nullish_or a b = a"

datatype js_error = Error string | TypeError string

definition msg_modulusLength :: string where
  "msg_modulusLength =
     ''Invalid or unsupported modulusLength option provided, 2048 bits or larger keys must be used''"

record GenerateKeyPairInput =
  alg :: string
  extractable :: "bool option"
  modulusLength :: jsvalue
  crv :: "string option"

definition getModulusLengthOption :: "GenerateKeyPairInput \<Rightarrow> js_error + jsnumber" where
  "getModulusLengthOption options =
     (case nullish_or (modulusLength options) (Number (Finite 2048)) of
        Number n \<Rightarrow>
          if js_less n (Finite 2048) then Inl (Error msg_modulusLength) else Inr n
      | _ \<Rightarrow> Inl (Error msg_modulusLength))"

datatype algorithm =
    RsaHashedKeyGenParams (name: string) (hash: string) (publicExponent: "nat list")
      (modulusLength_of: jsnumber)
  | EcKeyGenParams (name: string) (namedCurve: string)
  | KeyAlgorithm (name: string)

text \<open>\<open>alg.slice(-3)\<close>: the last three characters, the whole string when it is shorter.\<close>

definition slice_last3 :: "string \<Rightarrow> string" where
  "slice_last3 s = drop (length s - 3) s"

definition digit_of :: "char \<Rightarrow> nat option" where
  "digit_of ch =
     (let n = (of_char ch :: nat) in if 48 \<le> n \<and> n \<le> 57 then Some (n - 48) else None)"

text \<open>
  \<open>parseInt(s, 10)\<close> on a string without leading white space or sign: the value of the
  longest prefix of decimal digits, \<open>NaN\<close> (here \<open>None\<close>) when that prefix is empty.
\<close>

fun parseInt_digits :: "nat option \<Rightarrow> string \<Rightarrow> nat option" where
  "parseInt_digits acc [] = acc"
| "parseInt_digits acc (ch # cs) =
     (case digit_of ch of
        None \<Rightarrow> acc
      | Some d \<Rightarrow> parseInt_digits (Some ((case acc of None \<Rightarrow> 0 | Some a \<Rightarrow> a) * 10 + d)) cs)"

definition parseInt10 :: "string \<Rightarrow> nat option" where
  "parseInt10 s = parseInt_digits None s"

text \<open>\<open>n || 1\<close> on the result of \<open>parseInt\<close>: \<open>NaN\<close> and \<open>0\<close> are falsy.\<close>

definition or_1 :: "nat option \<Rightarrow> nat" where
  "or_1 n = (case n of None \<Rightarrow> 1 | Some k \<Rightarrow> if k = 0 then 1 else k)"

text \<open>How a template literal prints a natural number.\<close>

fun decimal :: "nat \<Rightarrow> string" where
  "decimal n =
     (if n < 10 then [char_of (48 + n)] else decimal (n div 10) @ [char_of (48 + n mod 10)])"

declare decimal.simps [simp del]

definition msg_alg :: string where
  "msg_alg = ''Invalid or unsupported JWK \"alg\" (Algorithm) Parameter value''"

definition msg_crv_okp :: string where
  "msg_crv_okp = ''Invalid or unsupported crv option provided''"

definition msg_crv_ecdh :: string where
  "msg_crv_ecdh =
     ''Invalid or unsupported crv option provided, supported values are P-256, P-384, P-521, X25519, and X448''"

text \<open>
  The \<open>switch\<close> of \<open>generateKeyPair\<close>: the algorithm and the key usages, or the error
  thrown.
\<close>

definition generateKeyPair_switch ::
  "GenerateKeyPairInput \<Rightarrow> js_error + algorithm \<times> string list" where
  "generateKeyPair_switch input =
     (let a = alg input in
      if a \<in> set [''PS256'', ''PS384'', ''PS512''] then
        (case getModulusLengthOption input of
           Inl e \<Rightarrow> Inl e
         | Inr m \<Rightarrow>
             Inr (RsaHashedKeyGenParams ''RSA-PSS'' (''SHA-'' @ slice_last3 a) [0x01, 0x00, 0x01] m,
                  [''sign'', ''verify'']))
      else if a \<in> set [''RS256'', ''RS384'', ''RS512''] then
        (case getModulusLengthOption input of
           Inl e \<Rightarrow> Inl e
         | Inr m \<Rightarrow>
             Inr (RsaHashedKeyGenParams ''RSASSA-PKCS1-v1_5'' (''SHA-'' @ slice_last3 a)
                    [0x01, 0x00, 0x01] m,
                  [''sign'', ''verify'']))
      else if a \<in> set [''RSA-OAEP'', ''RSA-OAEP-256'', ''RSA-OAEP-384'', ''RSA-OAEP-512''] then
        (case getModulusLengthOption input of
           Inl e \<Rightarrow> Inl e
         | Inr m \<Rightarrow>
             Inr (RsaHashedKeyGenParams ''RSA-OAEP''
                    (''SHA-'' @ decimal (or_1 (parseInt10 (slice_last3 a)))) [0x01, 0x00, 0x01] m,
                  [''decrypt'', ''unwrapKey'', ''encrypt'', ''wrapKey'']))
      else if a = ''ES256'' then Inr (EcKeyGenParams ''ECDSA'' ''P-256'', [''sign'', ''verify''])
      else if a = ''ES384'' then Inr (EcKeyGenParams ''ECDSA'' ''P-384'', [''sign'', ''verify''])
      else if a = ''ES512'' then Inr (EcKeyGenParams ''ECDSA'' ''P-521'', [''sign'', ''verify''])
      else if a = ''EdDSA'' then
        (let c = (case crv input of None \<Rightarrow> ''Ed25519'' | Some x \<Rightarrow> x) in
         if c \<in> set [''Ed25519'', ''Ed448''] then Inr (KeyAlgorithm c, [''sign'', ''verify''])
         else Inl (Error msg_crv_okp))
      else if a \<in> set [''ECDH-ES'', ''ECDH-ES+A128KW'', ''ECDH-ES+A192KW'', ''ECDH-ES+A256KW''] then
        (let c = (case crv input of None \<Rightarrow> ''P-256'' | Some x \<Rightarrow> x) in
         if c \<in> set [''P-256'', ''P-384'', ''P-521'']
         then Inr (EcKeyGenParams ''ECDH'' c, [''deriveKey'', ''deriveBits''])
         else if c \<in> set [''X25519'', ''X448'']
         then Inr (KeyAlgorithm c, [''deriveKey'', ''deriveBits''])
         else Inl (Error msg_crv_ecdh))
      else Inl (Error msg_alg))"

text \<open>
  \<open>generateKeyPair\<close>: the host's \<open>crypto.subtle.generateKey\<close> is called with the
  algorithm of the \<open>switch\<close>, \<open>extractable ?? false\<close> and the key usages.
\<close>

definition generateKeyPair ::
  "(algorithm \<Rightarrow> bool \<Rightarrow> string list \<Rightarrow> js_error + 'k) \<Rightarrow> GenerateKeyPairInput \<Rightarrow> js_error + 'k" where
  "generateKeyPair generateKey input =
     (case generateKeyPair_switch input of
        Inl e \<Rightarrow> Inl e
      | Inr (algorithm, keyUsages) \<Rightarrow>
          generateKey algorithm (case extractable input of None \<Rightarrow> False | Some b \<Rightarrow> b) keyUsages)"

definition rsa_algs :: "string list" where
  "rsa_algs =
     [''PS256'', ''PS384'', ''PS512'', ''RS256'', ''RS384'', ''RS512'',
      ''RSA-OAEP'', ''RSA-OAEP-256'', ''RSA-OAEP-384'', ''RSA-OAEP-512'']"

section \<open>PEM export and the ASN.1 walk (the module of toPKCS8 and spkiFromX509)\<close>

type_synonym byte = "8 word"

subsection \<open>Export\<close>

text \<open>
  A \<open>CryptoKey\<close> with its members \<open>type\<close> and \<open>extractable\<close> (named \<open>key_type\<close> and
  \<open>key_extractable\<close> here). The argument \<open>key\<close> is typed \<open>CryptoKey\<close>, and
  \<open>isCryptoKey\<close> guards against a caller that passes something else.
\<close>

datatype CryptoKey = CryptoKey (key_type: string) (key_extractable: bool) (key_algorithm: string)

datatype key_argument = IsCryptoKey CryptoKey | NotCryptoKey jsvalue

fun isCryptoKey :: "key_argument \<Rightarrow> bool" where
  "isCryptoKey (IsCryptoKey k) = True"
| "isCryptoKey (NotCryptoKey v) = False"

text \<open>
  What the module imports: the message builder \<open>invalidKeyInput\<close>, \<open>formatPEM\<close>,
  \<open>uint8ArrayToBase64\<close>, and the host's \<open>crypto.subtle.exportKey\<close>.
\<close>

record export_deps =
  invalidKeyInput :: "jsvalue \<Rightarrow> string list \<Rightarrow> string"
  exportKey :: "string \<Rightarrow> CryptoKey \<Rightarrow> js_error + byte list"
  uint8ArrayToBase64 :: "byte list \<Rightarrow> string"
  formatPEM :: "string \<Rightarrow> string \<Rightarrow> string"

definition toUpperCase :: "string \<Rightarrow> string" where
  "toUpperCase s =
     map (\<lambda>ch. let n = (of_char ch :: nat) in
                if 97 \<le> n \<and> n \<le> 122 then char_of (n - 32) else ch) s"

definition genericExport ::
  "export_deps \<Rightarrow> string \<Rightarrow> string \<Rightarrow> key_argument \<Rightarrow> js_error + string" where
  "genericExport d keyType keyFormat key =
     (case key of
        NotCryptoKey v \<Rightarrow> Inl (TypeError (invalidKeyInput d v [''CryptoKey'']))
      | IsCryptoKey k \<Rightarrow>
          if \<not> key_extractable k then Inl (TypeError ''CryptoKey is not extractable'')
          else if key_type k \<noteq> keyType
          then Inl (TypeError (''key is not a '' @ keyType @ '' key''))
          else
            (case exportKey d keyFormat k of
               Inl e \<Rightarrow> Inl e
             | Inr exported \<Rightarrow>
                 Inr (formatPEM d (uint8ArrayToBase64 d exported)
                        (toUpperCase keyType @ '' KEY''))))"

definition toSPKI :: "export_deps \<Rightarrow> key_argument \<Rightarrow> js_error + string" where
  "toSPKI d key = genericExport d ''public'' ''spki'' key"

definition toPKCS8 :: "export_deps \<Rightarrow> key_argument \<Rightarrow> js_error + string" where
  "toPKCS8 d key = genericExport d ''public'' ''pkcs8'' key"

subsection \<open>Reading a Uint8Array\<close>

text \<open>
  An index past the end reads \<open>undefined\<close> (\<open>None\<close>). Then \<open>undefined & m\<close> is \<open>0\<close>,
  both \<open>undefined >= 0x80\<close> and \<open>undefined < 0x80\<close> are false, and arithmetic on
  \<open>undefined\<close> gives \<open>NaN\<close>, which is \<open>None\<close> in a number. Numbers are exact here;
  the doubles of the source are exact below \<open>2^53\<close>, beyond any length of an array.
\<close>

definition byte_at :: "byte list \<Rightarrow> nat \<Rightarrow> byte option" where
  "byte_at bytes i = (if i < length bytes then Some (bytes ! i) else None)"

definition band :: "byte option \<Rightarrow> byte \<Rightarrow> nat" where
  "band b m = (case b of None \<Rightarrow> 0 | Some x \<Rightarrow> unat (x AND m))"

definition ge_0x80 :: "byte option \<Rightarrow> bool" where
  "ge_0x80 b = (case b of None \<Rightarrow> False | Some x \<Rightarrow> 0x80 \<le> x)"

definition lt_0x80 :: "byte option \<Rightarrow> bool" where
  "lt_0x80 b = (case b of None \<Rightarrow> False | Some x \<Rightarrow> x < 0x80)"

text \<open>
  \<open>bytes.subarray(begin, end)\<close>: both ends are clamped to the length, \<open>NaN\<close> counts as
  \<open>0\<close>, and an end before the begin gives the empty array.
\<close>

definition subarray :: "byte list \<Rightarrow> nat \<Rightarrow> nat option \<Rightarrow> byte list" where
  "subarray bytes begin finish =
     (let n = length bytes;
          b = min begin n;
          e = min (case finish of None \<Rightarrow> 0 | Some k \<Rightarrow> k) n
      in take (e - b) (drop b bytes))"

subsection \<open>parseElement\<close>

record element =
  byteLength :: "nat option"
  contents :: "byte list"
  raw :: "byte list"

text \<open>The \<open>while\<close> loop of a multi-byte tag (lines 237 to 241).\<close>

function tag_loop :: "byte list \<Rightarrow> int option \<Rightarrow> nat \<Rightarrow> int option \<times> nat" where
  "tag_loop bytes tag position =
     (if ge_0x80 (byte_at bytes position)
      then tag_loop bytes
             (case (tag, byte_at bytes position) of
                (Some t, Some b) \<Rightarrow> Some (t * 128 + uint b - 0x80)
              | _ \<Rightarrow> None)
             (position + 1)
      else (tag, position))"
  by pat_completeness auto
termination
  by (relation "measure (\<lambda>(bytes, tag, position). length bytes - position)")
     (auto simp: ge_0x80_def byte_at_def split: option.splits if_splits)

declare tag_loop.simps [simp del]

text \<open>The \<open>for\<close> loop of a long-form length (lines 278 to 282).\<close>

fun digits_loop :: "byte list \<Rightarrow> nat \<Rightarrow> nat option \<Rightarrow> nat \<Rightarrow> nat option \<times> nat" where
  "digits_loop bytes 0 len position = (len, position)"
| "digits_loop bytes (Suc i) len position =
     digits_loop bytes i
       (case (len, byte_at bytes position) of
          (Some l, Some b) \<Rightarrow> Some (l * 256 + unat b)
        | _ \<Rightarrow> None)
       (position + 1)"

text \<open>The \<open>while\<close> loop of the indefinite form (lines 257 to 265).\<close>

function indefinite_loop :: "byte list \<Rightarrow> nat \<Rightarrow> nat \<Rightarrow> js_error + nat" where
  "indefinite_loop bytes position len =
     (if byte_at bytes (position + len) \<noteq> Some 0 \<or> byte_at bytes (position + len + 1) \<noteq> Some 0
      then (if len > length bytes then Inl (TypeError ''invalid indefinite form length'')
            else indefinite_loop bytes position (len + 1))
      else Inr len)"
  by pat_completeness auto
termination
  by (relation "measure (\<lambda>(bytes, position, len). Suc (length bytes) - len)") auto

declare indefinite_loop.simps [simp del]

text \<open>
  Lines 228 to 245 of \<open>parseElement\<close>: the tag and the position after the identifier
  octets. The last octet of a multi-byte tag is added like the others, \<open>0x80\<close> taken off.
\<close>

definition read_tag :: "byte list \<Rightarrow> int option \<times> nat" where
  "read_tag bytes =
     (let tag = int (band (byte_at bytes 0) 0x1f);
          position = 1
      in if tag = 0x1f
         then (let (t, p) = tag_loop bytes (Some 0) position
               in ((case (t, byte_at bytes p) of
                      (Some t', Some b) \<Rightarrow> Some (t' * 128 + uint b - 0x80)
                    | _ \<Rightarrow> None),
                   p + 1))
         else (Some tag, position))"

text \<open>
  \<open>parseElement\<close>, from line 247 on. The variable \<open>length\<close> is \<open>0\<close> when the second
  branch tests \<open>length === 0x80\<close>, as in the source.
\<close>

definition parseElement :: "byte list \<Rightarrow> js_error + element" where
  "parseElement bytes =
     (let (tag, position) = read_tag bytes;
          len0 = (0 :: nat)
      in if lt_0x80 (byte_at bytes position)
         then (let len = (case byte_at bytes position of None \<Rightarrow> 0 | Some b \<Rightarrow> unat b);
                   position = position + 1;
                   total = position + len
               in Inr \<lparr> byteLength = Some total,
                        contents = subarray bytes position (Some total),
                        raw = subarray bytes 0 (Some total) \<rparr>)
         else if len0 = 0x80
         then (case indefinite_loop bytes position 0 of
                 Inl e \<Rightarrow> Inl e
               | Inr len \<Rightarrow>
                   (let total = position + len + 2
                    in Inr \<lparr> byteLength = Some total,
                             contents = subarray bytes position (Some (position + len)),
                             raw = subarray bytes 0 (Some total) \<rparr>))
         else (let numberOfDigits = band (byte_at bytes position) 0x7f;
                   (len, position) = digits_loop bytes numberOfDigits (Some 0) (position + 1);
                   total = map_option (\<lambda>l. position + l) len
               in Inr \<lparr> byteLength = total,
                        contents = subarray bytes position total,
                        raw = subarray bytes 0 total \<rparr>))"

subsection \<open>getElement and spkiFromX509\<close>

text \<open>Every element takes at least its tag byte, so the walk of \<open>getElement\<close> advances.\<close>

lemma digits_loop_position: "snd (digits_loop bytes k len position) = position + k"
  by (induction k arbitrary: len position) simp_all

lemma parseElement_advances:
  "parseElement bytes = Inr el \<Longrightarrow> byteLength el = Some n \<Longrightarrow> 0 < n"
proof -
  have pos: "digits_loop bytes k len (Suc p) = (l, q) \<Longrightarrow> 0 < q" for k len p l q
    using digits_loop_position [of bytes k len "Suc p"] by simp
  assume "parseElement bytes = Inr el" and "byteLength el = Some n"
  then show ?thesis
    by (auto simp: parseElement_def Let_def split: prod.splits if_splits sum.splits dest!: pos)
qed

text \<open>
  The \<open>while\<close> loop of \<open>getElement\<close>; \<open>next\<close> becomes \<open>NaN\<close> with the element's
  \<open>byteLength\<close>, and \<open>NaN < seq.length\<close> ends the loop.
\<close>

function getElement_loop ::
  "byte list \<Rightarrow> nat \<Rightarrow> element list \<Rightarrow> js_error + element list" where
  "getElement_loop seq next result =
     (if next < length seq
      then (case parseElement (drop next seq) of
              Inl e \<Rightarrow> Inl e
            | Inr nextPart \<Rightarrow>
                (case byteLength nextPart of
                   None \<Rightarrow> Inr (result @ [nextPart])
                 | Some n \<Rightarrow> getElement_loop seq (next + n) (result @ [nextPart])))
      else Inr result)"
  by pat_completeness auto
termination
  by (relation "measure (\<lambda>(seq, next, result). length seq - next)")
     (auto dest: parseElement_advances)

declare getElement_loop.simps [simp del]

definition getElement :: "byte list \<Rightarrow> js_error + element list" where
  "getElement seq = getElement_loop seq 0 []"

definition msg_undefined :: string where
  "msg_undefined = ''Cannot read properties of undefined''"

text \<open>
  \<open>spkiFromX509\<close>. Reading a member of an array element that is not there throws a
  \<open>TypeError\<close>; the first byte of an empty \<open>raw\<close> is \<open>undefined\<close> and differs from
  \<open>0xa0\<close>.
\<close>

definition spkiFromX509 :: "(byte list \<Rightarrow> string) \<Rightarrow> byte list \<Rightarrow> js_error + string" where
  "spkiFromX509 toBase64 buf =
     (case parseElement buf of
        Inl e \<Rightarrow> Inl e
      | Inr outer \<Rightarrow>
     (case getElement (contents outer) of
        Inl e \<Rightarrow> Inl e
      | Inr [] \<Rightarrow> Inl (TypeError msg_undefined)
      | Inr (el # _) \<Rightarrow>
     (case getElement (contents el) of
        Inl e \<Rightarrow> Inl e
      | Inr [] \<Rightarrow> Inl (TypeError msg_undefined)
      | Inr (first # rest) \<Rightarrow>
          (let tbsCertificate = first # rest;
               i = (if byte_at (raw first) 0 = Some 0xa0 then 6 else 5)
           in if i < length tbsCertificate
              then Inr (toBase64 (raw (tbsCertificate ! i)))
              else Inl (TypeError msg_undefined)))))"

subsection \<open>DER encoding, to state what a certificate is\<close>

text \<open>
  The identifier octets of an element: one octet whose low five bits are not all set,
  or such an octet with all five set, followed by octets with the high bit set and a
  last one without.
\<close>

fun wf_identifier :: "byte list \<Rightarrow> bool" where
  "wf_identifier [] = False"
| "wf_identifier [b] = (b AND 0x1f \<noteq> 0x1f)"
| "wf_identifier (b # bs) =
     (b AND 0x1f = 0x1f \<and> list_all (\<lambda>x. 0x80 \<le> x) (butlast bs) \<and> last bs < 0x80)"

text \<open>The digits of a number in base 256, most significant first.\<close>

fun be_digits :: "nat \<Rightarrow> byte list" where
  "be_digits n = (if n = 0 then [] else be_digits (n div 256) @ [of_nat (n mod 256)])"

declare be_digits.simps [simp del]

text \<open>The definite length octets: short form below 128, long form otherwise.\<close>

definition der_length :: "nat \<Rightarrow> byte list" where
  "der_length n =
     (if n < 128 then [of_nat n] else of_nat (128 + length (be_digits n)) # be_digits n)"

definition der :: "byte list \<Rightarrow> byte list \<Rightarrow> byte list" where
  "der identifier content = identifier @ der_length (length content) @ content"

definition der_element :: "byte list \<times> byte list \<Rightarrow> element" where
  "der_element ic =
     \<lparr> byteLength = Some (length (der (fst ic) (snd ic))),
       contents = snd ic,
       raw = der (fst ic) (snd ic) \<rparr>"

text \<open>An element as the walk can read it back: identifier well formed, length below \<open>2^53\<close>.\<close>

definition wf_tlv :: "byte list \<times> byte list \<Rightarrow> bool" where
  "wf_tlv ic = (wf_identifier (fst ic) \<and> length (snd ic) < 2 ^ 53)"

text \<open>The encodings of a list of elements, one after the other.\<close>

definition der_all :: "(byte list \<times> byte list) list \<Rightarrow> byte list" where
  "der_all es = concat (map (\<lambda>ic. der (fst ic) (snd ic)) es)"

subsection \<open>Instances to run the functions on\<close>

text \<open>A host whose \<open>generateKey\<close> hands back what it was called with.\<close>

definition example_generateKey ::
  "algorithm \<Rightarrow> bool \<Rightarrow> string list \<Rightarrow> js_error + algorithm \<times> bool \<times> string list" where
  "example_generateKey a e us = Inr (a, e, us)"

definition example_input :: "string \<Rightarrow> jsvalue \<Rightarrow> GenerateKeyPairInput" where
  "example_input a m = \<lparr> alg = a, extractable = None, modulusLength = m, crv = None \<rparr>"

definition example_export_deps :: export_deps where
  "example_export_deps =
     \<lparr> invalidKeyInput = (\<lambda>v types. ''Key must be of type CryptoKey.''),
       exportKey = (\<lambda>format k. Inr [0x30, 0x00]),
       uint8ArrayToBase64 = (\<lambda>bytes. ''MAA=''),
       formatPEM = (\<lambda>b64 label. ''-----BEGIN '' @ label @ ''----- '' @ b64
                                 @ '' -----END '' @ label @ ''-----'') \<rparr>"

text \<open>
  Two small bodies of a tbsCertificate, without and with the explicit version element;
  the sixth element of the first stands for the SubjectPublicKeyInfo. The stand-in for
  \<open>uint8ArrayToBase64\<close> prints each byte as one character.
\<close>

definition example_tbs_v1 :: "(byte list \<times> byte list) list" where
  "example_tbs_v1 =
     [([0x02], [0x01]), ([0x30], []), ([0x30], []), ([0x30], []), ([0x30], []),
      ([0x30], [0x03, 0x01, 0x00])]"

definition example_tbs_v3 :: "(byte list \<times> byte list) list" where
  "example_tbs_v3 = ([0xa0], [0x02, 0x01, 0x02]) # example_tbs_v1"

definition example_toBase64 :: "byte list \<Rightarrow> string" where
  "example_toBase64 bytes = map (\<lambda>b. char_of (unat b)) bytes"

section \<open>Properties of the JARM envelope\<close>

lemmas example_defs =
  example_deps_def example_ctx_def example_header_def example_payload_def
  example_signed_payload_def example_error_params_def example_base_def example_request_def
  lookup_def v_is_def v_parse_def v_string_def v_number_def v_unknown_def v_optional_def
  v_nonOptional_def v_omit_def v_pick_def v_partial_def v_required_def spread_def
  vJarmDirectPostJwtParams_def vJarmAuthResponseEncrypted_def state_differs_def

lemmas run_defs =
  jarmAuthResponseDirectPostJwtValidate_def decryptedResponse_def decryptJarmAuthResponse_def
  signed_branch_def unsigned_branch_def parseJarmAuthResponseParams_def
  jarmAuthResponseDirectPostValidateParams_def jarmAuthResponseEncryptedValidate_def

text \<open>Before the envelope is opened, the only call a run can have made is the decryption.\<close>

lemma decryptedResponse_events:
  "decryptedResponse im c response = (r, tr) \<Longrightarrow>
     tr = [] \<or> (\<exists>kid. tr = [DecryptCompact response kid])"
  by (auto simp: decryptedResponse_def decryptJarmAuthResponse_def
           split: if_splits sum.splits option.splits)

subsection \<open>Three runs of the instance, one for each envelope\<close>

lemma example_run_signed:
  "jarmAuthResponseDirectPostJwtValidate (example_deps example_header example_signed_payload)
     (example_ctx ''{}'' (Some ''s1'')) ''a.b.c''
   = (Inr (example_result example_signed_payload ''signed''),
      [GetParams example_signed_payload, VerifyJwt ''a.b.c'' (JStr ''key-1''),
       ValidateParams (Some ''s1'') example_signed_payload])"
  by (simp add: run_defs example_defs example_result_def)

lemma example_run_encrypted:
  "jarmAuthResponseDirectPostJwtValidate (example_deps example_header example_payload)
     (example_ctx ''{}'' (Some ''s1'')) ''a.b.c.d.e''
   = (Inr (example_result example_payload ''encrypted''),
      [DecryptCompact ''a.b.c.d.e'' (JStr ''key-1''), GetParams example_payload,
       ValidateParams (Some ''s1'') example_payload])"
  by (simp add: run_defs example_defs example_result_def)

lemma example_run_signed_encrypted:
  "jarmAuthResponseDirectPostJwtValidate (example_deps example_header example_signed_payload)
     (example_ctx ''x.y.z'' (Some ''s1'')) ''a.b.c.d.e''
   = (Inr (example_result example_signed_payload ''signed encrypted''),
      [DecryptCompact ''a.b.c.d.e'' (JStr ''key-1''), GetParams example_signed_payload,
       VerifyJwt ''x.y.z'' (JStr ''key-1''),
       ValidateParams (Some ''s1'') example_signed_payload])"
  by (simp add: run_defs example_defs example_result_def)

subsection \<open>C2: neither signed nor encrypted\<close>

text \<open>
  C2. A response that is neither a JWE nor a JWS is refused with the error
  \<open>Jarm Auth Response must be either encrypted, signed, or signed and encrypted.\<close>, and
  the run has made no call: nothing was decrypted, verified, fetched or validated.
\<close>

theorem not_signed_or_encrypted_rejected:
  assumes "\<not> isJwe im response" and "\<not> isJws im response"
  shows "jarmAuthResponseDirectPostJwtValidate im c response
           = (Inl (JarmAuthResponseValidationError msg_not_signed_or_encrypted), [])"
  using assms by (simp add: jarmAuthResponseDirectPostJwtValidate_def decryptedResponse_def)

theorem not_signed_or_encrypted_rejected_witness:
  "\<not> isJwe (example_deps example_header example_payload) ''{}''
   \<and> \<not> isJws (example_deps example_header example_payload) ''{}''
   \<and> jarmAuthResponseDirectPostJwtValidate (example_deps example_header example_payload)
         (example_ctx ''{}'' None) ''{}''
       = (Inl (JarmAuthResponseValidationError
                ''Jarm Auth Response must be either encrypted, signed, or signed and encrypted.''), [])"
  using not_signed_or_encrypted_rejected
          [of "example_deps example_header example_payload" "''{}''" "example_ctx ''{}'' None"]
  by (simp add: example_deps_def msg_not_signed_or_encrypted_def)

subsection \<open>C5: a JWE without kid\<close>

text \<open>
  C5. When the protected header of the response has no \<open>kid\<close>,
  \<open>decryptJarmAuthResponse\<close> throws the validation error
  \<open>Jarm JWE is missing the protected header field 'kid'.\<close> and \<open>decryptCompact\<close> has not
  been called (the run has no call); for a JWE this is the outcome of
  \<open>jarmAuthResponseDirectPostJwtValidate\<close>.
\<close>

theorem jwe_without_kid_not_decrypted:
  assumes "decodeProtectedHeader im response = Inr hdr" and "lookup hdr ''kid'' = None"
  shows "decryptJarmAuthResponse im c response
           = (Inl (JarmAuthResponseValidationError msg_jwe_missing_kid), [])
         \<and> (isJwe im response \<longrightarrow>
              jarmAuthResponseDirectPostJwtValidate im c response
                = (Inl (JarmAuthResponseValidationError msg_jwe_missing_kid), []))"
  using assms
  by (simp add: jarmAuthResponseDirectPostJwtValidate_def decryptedResponse_def
                decryptJarmAuthResponse_def)

theorem jwe_without_kid_not_decrypted_witness:
  "decodeProtectedHeader (example_deps [(''alg'', JStr ''ECDH-ES'')] example_payload) ''a.b.c.d.e''
     = Inr [(''alg'', JStr ''ECDH-ES'')]
   \<and> lookup [(''alg'', JStr ''ECDH-ES'')] ''kid'' = None
   \<and> isJwe (example_deps [(''alg'', JStr ''ECDH-ES'')] example_payload) ''a.b.c.d.e''
   \<and> jarmAuthResponseDirectPostJwtValidate
         (example_deps [(''alg'', JStr ''ECDH-ES'')] example_payload)
         (example_ctx ''{}'' None) ''a.b.c.d.e''
       = (Inl (JarmAuthResponseValidationError msg_jwe_missing_kid), [])"
  using jwe_without_kid_not_decrypted
          [of "example_deps [(''alg'', JStr ''ECDH-ES'')] example_payload" "''a.b.c.d.e''"
              "[(''alg'', JStr ''ECDH-ES'')]" "example_ctx ''{}'' None"]
  by (simp add: example_deps_def lookup_def)

subsection \<open>C3: the returned type\<close>

text \<open>
  C3. When \<open>jarmAuthResponseDirectPostJwtValidate\<close> returns, its \<open>type\<close> is
  \<open>signed encrypted\<close> for a JWE whose plaintext is a JWS, \<open>encrypted\<close> for a JWE whose
  plaintext is not a JWS, and \<open>signed\<close> for a bare JWS; there is no other case.
\<close>

theorem returned_type:
  assumes "jarmAuthResponseDirectPostJwtValidate im c response = (Inr r, tr)"
  shows "\<exists>dr tr0. decryptedResponse im c response = (Inr dr, tr0)
           \<and> ((isJwe im response \<and> isJws im dr \<and> validated.type r = ''signed encrypted'')
              \<or> (isJwe im response \<and> \<not> isJws im dr \<and> validated.type r = ''encrypted'')
              \<or> (\<not> isJwe im response \<and> dr = response \<and> isJws im response
                   \<and> validated.type r = ''signed''))"
  using assms
  by (auto simp: jarmAuthResponseDirectPostJwtValidate_def decryptedResponse_def Let_def
           split: if_splits sum.splits prod.splits)

theorem returned_type_witness:
  "jarmAuthResponseDirectPostJwtValidate (example_deps example_header example_signed_payload)
     (example_ctx ''x.y.z'' (Some ''s1'')) ''a.b.c.d.e''
   = (Inr (example_result example_signed_payload ''signed encrypted''),
      [DecryptCompact ''a.b.c.d.e'' (JStr ''key-1''), GetParams example_signed_payload,
       VerifyJwt ''x.y.z'' (JStr ''key-1''),
       ValidateParams (Some ''s1'') example_signed_payload])
   \<and> (\<exists>dr tr0. decryptedResponse (example_deps example_header example_signed_payload)
                  (example_ctx ''x.y.z'' (Some ''s1'')) ''a.b.c.d.e'' = (Inr dr, tr0)
        \<and> isJws (example_deps example_header example_signed_payload) dr)"
  using returned_type [OF example_run_signed_encrypted] example_run_signed_encrypted
  by (auto simp: example_result_def)

subsection \<open>C10: a JWS without kid\<close>

text \<open>
  C10. On a signed path (the response is a JWS, or a JWE whose plaintext is a JWS), when
  the protected header of the JWS has no \<open>kid\<close> the run ends in an error and
  \<open>verifyJwt\<close> is never called. The check comes after the payload is parsed and the
  request parameters are fetched: a payload that does not parse, or a failing
  \<open>getParams\<close>, gives that error first; once both succeed the error is
  \<open>Jarm JWS is missing the protected header field 'kid'.\<close>, thrown right after the
  call of \<open>getParams\<close>.
\<close>

theorem jws_without_kid_not_verified:
  assumes "decryptedResponse im c response = (Inr dr, tr)" and "isJws im dr"
    and "decodeProtectedHeader im dr = Inr hdr" and "lookup hdr ''kid'' = None"
  shows "(\<exists>e. fst (jarmAuthResponseDirectPostJwtValidate im c response) = Inl e)
    \<and> (\<forall>jws kid. VerifyJwt jws kid \<notin> set (snd (jarmAuthResponseDirectPostJwtValidate im c response)))
    \<and> (decodeJwt im dr = Inr payload
         \<and> parseJarmAuthResponseParams im
              (v_required (vJarmDirectPostJwtParams im) [''iss'', ''aud'', ''exp'']) payload = Inl e1
         \<longrightarrow> jarmAuthResponseDirectPostJwtValidate im c response = (Inl e1, tr))
    \<and> (decodeJwt im dr = Inr payload
         \<and> parseJarmAuthResponseParams im
              (v_required (vJarmDirectPostJwtParams im) [''iss'', ''aud'', ''exp'']) payload = Inr params
         \<and> getParams c params = Inl e2
         \<longrightarrow> jarmAuthResponseDirectPostJwtValidate im c response = (Inl e2, tr @ [GetParams params]))
    \<and> (decodeJwt im dr = Inr payload
         \<and> parseJarmAuthResponseParams im
              (v_required (vJarmDirectPostJwtParams im) [''iss'', ''aud'', ''exp'']) payload = Inr params
         \<and> getParams c params = Inr req
         \<longrightarrow> jarmAuthResponseDirectPostJwtValidate im c response
               = (Inl (JarmAuthResponseValidationError msg_jws_missing_kid),
                  tr @ [GetParams params]))"
proof -
  have tr: "tr = [] \<or> (\<exists>kid. tr = [DecryptCompact response kid])"
    using assms(1) by (rule decryptedResponse_events)
  have br: "(\<exists>e. fst (signed_branch im c dr) = Inl e)
            \<and> (\<forall>jws kid. VerifyJwt jws kid \<notin> set (snd (signed_branch im c dr)))"
    using assms(3,4) by (auto simp: signed_branch_def split: sum.splits)
  then obtain e0 tr' where sb: "signed_branch im c dr = (Inl e0, tr')"
    by (cases "signed_branch im c dr") auto
  have run: "jarmAuthResponseDirectPostJwtValidate im c response = (Inl e0, tr @ tr')"
    using assms(1,2) sb by (simp add: jarmAuthResponseDirectPostJwtValidate_def Let_def)
  show ?thesis
    using tr br sb assms(3,4)
    by (auto simp: run signed_branch_def split: sum.splits)
qed

theorem jws_without_kid_not_verified_witness:
  "decryptedResponse (example_deps example_header_without_kid example_signed_payload)
      (example_ctx ''{}'' (Some ''s1'')) ''a.b.c'' = (Inr ''a.b.c'', [])
   \<and> isJws (example_deps example_header_without_kid example_signed_payload) ''a.b.c''
   \<and> decodeProtectedHeader (example_deps example_header_without_kid example_signed_payload) ''a.b.c''
       = Inr example_header_without_kid
   \<and> lookup example_header_without_kid ''kid'' = None
   \<and> decodeJwt (example_deps example_header_without_kid example_signed_payload) ''a.b.c''
       = Inr example_signed_payload
   \<and> parseJarmAuthResponseParams (example_deps example_header_without_kid example_signed_payload)
        (v_required (vJarmDirectPostJwtParams
                       (example_deps example_header_without_kid example_signed_payload))
           [''iss'', ''aud'', ''exp'']) example_signed_payload
       = Inr example_signed_payload
   \<and> getParams (example_ctx ''{}'' (Some ''s1'')) example_signed_payload
       = Inr (example_request (Some ''s1''))
   \<and> jarmAuthResponseDirectPostJwtValidate
        (example_deps example_header_without_kid example_signed_payload)
        (example_ctx ''{}'' (Some ''s1'')) ''a.b.c''
       = (Inl (JarmAuthResponseValidationError msg_jws_missing_kid),
          [GetParams example_signed_payload])"
proof -
  let ?D = "example_deps example_header_without_kid example_signed_payload"
  let ?C = "example_ctx ''{}'' (Some ''s1'')"
  have h1: "decryptedResponse ?D ?C ''a.b.c'' = (Inr ''a.b.c'', [])"
    by (simp add: decryptedResponse_def example_deps_def)
  have h2: "isJws ?D ''a.b.c''" by (simp add: example_deps_def)
  have h3: "decodeProtectedHeader ?D ''a.b.c'' = Inr example_header_without_kid"
    by (simp add: example_deps_def)
  have h4: "lookup example_header_without_kid ''kid'' = None"
    by (simp add: example_header_without_kid_def lookup_def)
  have h5: "decodeJwt ?D ''a.b.c'' = Inr example_signed_payload" by (simp add: example_deps_def)
  have h6: "parseJarmAuthResponseParams ?D
              (v_required (vJarmDirectPostJwtParams ?D) [''iss'', ''aud'', ''exp''])
              example_signed_payload = Inr example_signed_payload"
    by (simp add: parseJarmAuthResponseParams_def example_defs)
  have h7: "getParams ?C example_signed_payload = Inr (example_request (Some ''s1''))"
    by (simp add: example_ctx_def)
  from jws_without_kid_not_verified [OF h1 h2 h3 h4,
         where payload = example_signed_payload and params = example_signed_payload
           and req = "example_request (Some ''s1'')"]
  show ?thesis using h1 h2 h3 h4 h5 h6 h7 by simp
qed

subsection \<open>C4: error responses\<close>

text \<open>
  C4. When the response parameters have the shape of \<open>vJarmAuthResponseErrorParams\<close>,
  \<open>parseJarmAuthResponseParams\<close> throws \<open>JarmReceivedErrorResponse\<close> whatever the schema
  is, so the schema is not consulted; \<open>jarmAuthResponseDirectPostJwtValidate\<close> ends in
  that error on the signed and on the encrypted-only path, and the run has made no call
  beyond the decryption: no request is fetched, nothing is verified or validated.
\<close>

theorem error_response_surfaces:
  assumes "vJarmAuthResponseErrorParams im p"
  shows "parseJarmAuthResponseParams im schema p = Inl (JarmReceivedErrorResponse ''PARSE_ERROR'' p)
    \<and> (decryptedResponse im c response = (Inr dr, tr) \<and> isJws im dr
         \<and> decodeProtectedHeader im dr = Inr hdr \<and> decodeJwt im dr = Inr p
        \<longrightarrow> jarmAuthResponseDirectPostJwtValidate im c response
              = (Inl (JarmReceivedErrorResponse ''PARSE_ERROR'' p), tr))
    \<and> (decryptedResponse im c response = (Inr dr, tr) \<and> isJwe im response \<and> \<not> isJws im dr
         \<and> JSON_parse im dr = Inr p
        \<longrightarrow> jarmAuthResponseDirectPostJwtValidate im c response
              = (Inl (JarmReceivedErrorResponse ''PARSE_ERROR'' p), tr))
    \<and> (decryptedResponse im c response = (Inr dr, tr)
        \<longrightarrow> tr = [] \<or> (\<exists>kid. tr = [DecryptCompact response kid]))"
proof -
  have parse: "parseJarmAuthResponseParams im s p = Inl (JarmReceivedErrorResponse ''PARSE_ERROR'' p)"
    for s using assms by (simp add: parseJarmAuthResponseParams_def)
  show ?thesis
    by (auto simp: parse jarmAuthResponseDirectPostJwtValidate_def signed_branch_def
                   unsigned_branch_def Let_def
             dest: decryptedResponse_events)
qed

theorem error_response_surfaces_witness:
  "vJarmAuthResponseErrorParams (example_deps example_header example_error_payload)
      example_error_payload
   \<and> decryptedResponse (example_deps example_header example_error_payload)
        (example_ctx ''{}'' (Some ''s1'')) ''a.b.c'' = (Inr ''a.b.c'', [])
   \<and> isJws (example_deps example_header example_error_payload) ''a.b.c''
   \<and> jarmAuthResponseDirectPostJwtValidate (example_deps example_header example_error_payload)
        (example_ctx ''{}'' (Some ''s1'')) ''a.b.c''
       = (Inl (JarmReceivedErrorResponse ''PARSE_ERROR'' example_error_payload), [])
   \<and> decryptedResponse (example_deps example_header example_error_payload)
        (example_ctx ''{}'' (Some ''s1'')) ''a.b.c.d.e''
       = (Inr ''{}'', [DecryptCompact ''a.b.c.d.e'' (JStr ''key-1'')])
   \<and> isJwe (example_deps example_header example_error_payload) ''a.b.c.d.e''
   \<and> \<not> isJws (example_deps example_header example_error_payload) ''{}''
   \<and> jarmAuthResponseDirectPostJwtValidate (example_deps example_header example_error_payload)
        (example_ctx ''{}'' (Some ''s1'')) ''a.b.c.d.e''
       = (Inl (JarmReceivedErrorResponse ''PARSE_ERROR'' example_error_payload),
          [DecryptCompact ''a.b.c.d.e'' (JStr ''key-1'')])"
proof -
  let ?D = "example_deps example_header example_error_payload"
  let ?C = "example_ctx ''{}'' (Some ''s1'')"
  have h: "vJarmAuthResponseErrorParams ?D example_error_payload"
    by (simp add: example_defs example_error_payload_def)
  have s1: "decryptedResponse ?D ?C ''a.b.c'' = (Inr ''a.b.c'', [])"
    by (simp add: decryptedResponse_def example_deps_def)
  have s2: "isJws ?D ''a.b.c''" by (simp add: example_deps_def)
  have s3: "decodeProtectedHeader ?D ''a.b.c'' = Inr example_header
            \<and> decodeJwt ?D ''a.b.c'' = Inr example_error_payload"
    by (simp add: example_deps_def)
  have e1: "decryptedResponse ?D ?C ''a.b.c.d.e''
              = (Inr ''{}'', [DecryptCompact ''a.b.c.d.e'' (JStr ''key-1'')])"
    by (simp add: decryptedResponse_def decryptJarmAuthResponse_def example_deps_def
                  example_ctx_def example_header_def lookup_def)
  have e2: "isJwe ?D ''a.b.c.d.e'' \<and> \<not> isJws ?D ''{}''
            \<and> JSON_parse ?D ''{}'' = Inr example_error_payload"
    by (simp add: example_deps_def)
  from error_response_surfaces [OF h, where c = ?C and response = "''a.b.c''"
         and dr = "''a.b.c''" and tr = "[]" and hdr = example_header]
       error_response_surfaces [OF h, where c = ?C and response = "''a.b.c.d.e''"
         and dr = "''{}''" and tr = "[DecryptCompact ''a.b.c.d.e'' (JStr ''key-1'')]"]
  show ?thesis using h s1 s2 s3 e1 e2 by simp
qed

subsection \<open>C6: iss, aud and exp\<close>

text \<open>Entries of a spread schema come from one of its parts, and its keys are those of both.\<close>

lemma set_update_subset: "set (AList.update k v al) \<subseteq> insert (k, v) (set al)"
  by (induction al) auto

lemma spread_entry:
  "(k, s) \<in> set (spread a b) \<Longrightarrow> (k, s) \<in> set a \<or> (k, s) \<in> set b"
  unfolding spread_def
proof (induction b arbitrary: a)
  case Nil
  then show ?case by simp
next
  case (Cons x b)
  obtain k' s' where x: "x = (k', s')" by (cases x)
  from Cons.prems have "(k, s) \<in> set (foldl (\<lambda>acc (k, s). AList.update k s acc) (AList.update k' s' a) b)"
    by (simp add: x)
  from Cons.IH [OF this] show ?case
    using set_update_subset [of k' s' a] by (auto simp: x)
qed

lemma spread_keys: "fst ` set (spread a b) = fst ` set a \<union> fst ` set b"
  unfolding spread_def
proof (induction b arbitrary: a)
  case Nil
  then show ?case by simp
next
  case (Cons x b)
  obtain k' s' where x: "x = (k', s')" by (cases x)
  show ?case by (simp add: x Cons.IH dom_update) 
qed

lemma lookup_filter:
  "lookup (filter (\<lambda>(k', v). P k') ob) k = (if P k then lookup ob k else None)"
  by (induction ob) (auto simp: lookup_def)

lemma encrypted_schema_has_key:
  assumes "k \<in> {''iss'', ''aud'', ''exp''}" and "k \<in> fst ` set base"
  shows "k \<in> fst ` set (vJarmAuthResponseEncrypted base)"
proof -
  from assms(2) obtain s where "(k, s) \<in> set base" by auto
  with assms(1) have "(k, v_optional s) \<in> set (v_partial (v_pick base [''iss'', ''aud'', ''exp'']))"
    by (force simp: v_partial_def v_pick_def)
  then have "k \<in> fst ` set (v_partial (v_pick base [''iss'', ''aud'', ''exp'']))"
    by force
  then show ?thesis
    by (simp add: vJarmAuthResponseEncrypted_def spread_keys)
qed

lemma encrypted_schema_optional:
  assumes "(k, s) \<in> set (vJarmAuthResponseEncrypted base)" and "k \<in> {''iss'', ''aud'', ''exp''}"
  shows "s None"
proof -
  from assms(1) have "(k, s) \<in> set (v_omit base [''iss'', ''aud'', ''exp''])
      \<or> (k, s) \<in> set (v_partial (v_pick base [''iss'', ''aud'', ''exp'']))
      \<or> (k, s) \<in> set [(''vp_token'', v_string), (''presentation_submission'', v_unknown),
                       (''nonce'', v_optional v_string)]"
    unfolding vJarmAuthResponseEncrypted_def by (blast dest: spread_entry)
  with assms(2) show ?thesis
    by (auto simp: v_omit_def v_partial_def v_optional_def)
qed

lemma required_rejects_absent:
  assumes "k \<in> set ks" and "k \<in> fst ` set es" and "lookup ob k = None"
  shows "\<not> v_is (v_required es ks) (JObj ob)"
proof -
  from assms(2) obtain s where "(k, s) \<in> set es" by auto
  with assms(1) have "(k, v_nonOptional s) \<in> set (v_required es ks)"
    by (force simp: v_required_def)
  moreover have "\<not> v_nonOptional s (lookup ob k)"
    using assms(3) by (simp add: v_nonOptional_def)
  ultimately show ?thesis
    by (force simp: v_is_def list_all_iff)
qed

lemma signed_parse_rejects_absent:
  assumes "k \<in> {''iss'', ''aud'', ''exp''}" and "k \<in> fst ` set (vJarmAuthResponse im)"
    and "get_member p k = None"
  shows "v_parse (v_required (vJarmDirectPostJwtParams im) [''iss'', ''aud'', ''exp'']) p = Inl ValiError"
proof (cases p)
  case (JObj ob)
  with assms(3) have "lookup ob k = None" by simp
  moreover have "k \<in> fst ` set (vJarmDirectPostJwtParams im)"
    unfolding vJarmDirectPostJwtParams_def using assms(1,2) by (rule encrypted_schema_has_key)
  moreover have "k \<in> set [''iss'', ''aud'', ''exp'']" using assms(1) by simp
  ultimately show ?thesis
    using required_rejects_absent [of k "[''iss'', ''aud'', ''exp'']" "vJarmDirectPostJwtParams im" ob]
    by (simp add: v_parse_def JObj)
qed (simp_all add: v_parse_def v_is_def)

lemma encrypted_schema_not_required:
  assumes "v_is (vJarmAuthResponseEncrypted base) (JObj ob)"
  shows "v_is (vJarmAuthResponseEncrypted base)
           (JObj (filter (\<lambda>(k', v). k' \<notin> {''iss'', ''aud'', ''exp''}) ob))"
  using assms
  by (auto simp: v_is_def list_all_iff lookup_filter dest: encrypted_schema_optional)

text \<open>
  C6. Let \<open>k\<close> be one of \<open>iss\<close>, \<open>aud\<close>, \<open>exp\<close> (members of the base schema, as the
  type of \<open>v.pick\<close> demands). On a signed path a payload without \<open>k\<close> makes the run
  throw at the parse: the schema's \<open>ValiError\<close>, or \<open>JarmReceivedErrorResponse\<close> with code
  \<open>PARSE_ERROR\<close> when the payload has the error shape. On the encrypted-only path the
  schema does not require the three members: an object that it accepts is still
  accepted without them, and an accepted object goes on to \<open>getParams\<close>.
\<close>

theorem signed_paths_require_iss_aud_exp:
  assumes "k \<in> {''iss'', ''aud'', ''exp''}" and "k \<in> fst ` set (vJarmAuthResponse im)"
  shows "(decryptedResponse im c response = (Inr dr, tr) \<and> isJws im dr
          \<and> decodeProtectedHeader im dr = Inr hdr \<and> decodeJwt im dr = Inr p
          \<and> get_member p k = None
         \<longrightarrow> jarmAuthResponseDirectPostJwtValidate im c response
               = (Inl (if vJarmAuthResponseErrorParams im p
                       then JarmReceivedErrorResponse ''PARSE_ERROR'' p else ValiError), tr))
    \<and> (v_is (vJarmDirectPostJwtParams im) (JObj ob)
         \<longrightarrow> v_is (vJarmDirectPostJwtParams im)
               (JObj (filter (\<lambda>(k', v). k' \<notin> {''iss'', ''aud'', ''exp''}) ob)))
    \<and> (decryptedResponse im c response = (Inr dr, tr) \<and> isJwe im response \<and> \<not> isJws im dr
          \<and> JSON_parse im dr = Inr (JObj ob) \<and> \<not> vJarmAuthResponseErrorParams im (JObj ob)
          \<and> v_is (vJarmDirectPostJwtParams im) (JObj ob)
         \<longrightarrow> (\<exists>tr'. snd (jarmAuthResponseDirectPostJwtValidate im c response)
                      = tr @ GetParams (JObj ob) # tr'))"
proof -
  have signed: "parseJarmAuthResponseParams im
                  (v_required (vJarmDirectPostJwtParams im) [''iss'', ''aud'', ''exp'']) p
                = Inl (if vJarmAuthResponseErrorParams im p
                       then JarmReceivedErrorResponse ''PARSE_ERROR'' p else ValiError)"
    if "get_member p k = None"
    using signed_parse_rejects_absent [OF assms that]
    by (simp add: parseJarmAuthResponseParams_def)
  have part1: "jarmAuthResponseDirectPostJwtValidate im c response
               = (Inl (if vJarmAuthResponseErrorParams im p
                       then JarmReceivedErrorResponse ''PARSE_ERROR'' p else ValiError), tr)"
    if "decryptedResponse im c response = (Inr dr, tr)" "isJws im dr"
       "decodeProtectedHeader im dr = Inr hdr" "decodeJwt im dr = Inr p" "get_member p k = None"
    using that signed [OF that(5)]
    by (simp add: jarmAuthResponseDirectPostJwtValidate_def signed_branch_def Let_def)
  have part2: "v_is (vJarmDirectPostJwtParams im)
                 (JObj (filter (\<lambda>(k', v). k' \<notin> {''iss'', ''aud'', ''exp''}) ob))"
    if "v_is (vJarmDirectPostJwtParams im) (JObj ob)"
    using that unfolding vJarmDirectPostJwtParams_def by (rule encrypted_schema_not_required)
  have part3: "\<exists>tr'. snd (jarmAuthResponseDirectPostJwtValidate im c response)
                      = tr @ GetParams (JObj ob) # tr'"
    if "decryptedResponse im c response = (Inr dr, tr)" "isJwe im response" "\<not> isJws im dr"
       "JSON_parse im dr = Inr (JObj ob)" "\<not> vJarmAuthResponseErrorParams im (JObj ob)"
       "v_is (vJarmDirectPostJwtParams im) (JObj ob)"
    using that
    by (auto simp: jarmAuthResponseDirectPostJwtValidate_def unsigned_branch_def Let_def
                   parseJarmAuthResponseParams_def v_parse_def
             split: sum.splits)
  show ?thesis using part1 part2 part3 by blast
qed

theorem signed_paths_require_iss_aud_exp_witness:
  "''iss'' \<in> {''iss'', ''aud'', ''exp''}
   \<and> ''iss'' \<in> fst ` set (vJarmAuthResponse (example_deps example_header example_payload))
   \<and> decryptedResponse (example_deps example_header example_payload)
        (example_ctx ''{}'' (Some ''s1'')) ''a.b.c'' = (Inr ''a.b.c'', [])
   \<and> isJws (example_deps example_header example_payload) ''a.b.c''
   \<and> decodeJwt (example_deps example_header example_payload) ''a.b.c'' = Inr example_payload
   \<and> get_member example_payload ''iss'' = None
   \<and> jarmAuthResponseDirectPostJwtValidate (example_deps example_header example_payload)
        (example_ctx ''{}'' (Some ''s1'')) ''a.b.c'' = (Inl ValiError, [])
   \<and> v_is (vJarmDirectPostJwtParams (example_deps example_header example_payload))
        example_signed_payload
   \<and> v_is (vJarmDirectPostJwtParams (example_deps example_header example_payload))
        example_payload
   \<and> decryptedResponse (example_deps example_header example_payload)
        (example_ctx ''{}'' (Some ''s1'')) ''a.b.c.d.e''
       = (Inr ''{}'', [DecryptCompact ''a.b.c.d.e'' (JStr ''key-1'')])
   \<and> isJwe (example_deps example_header example_payload) ''a.b.c.d.e''
   \<and> \<not> isJws (example_deps example_header example_payload) ''{}''
   \<and> \<not> vJarmAuthResponseErrorParams (example_deps example_header example_payload) example_payload
   \<and> (\<exists>tr'. snd (jarmAuthResponseDirectPostJwtValidate
                    (example_deps example_header example_payload)
                    (example_ctx ''{}'' (Some ''s1'')) ''a.b.c.d.e'')
             = [DecryptCompact ''a.b.c.d.e'' (JStr ''key-1''), GetParams example_payload] @ tr')"
proof -
  let ?D = "example_deps example_header example_payload"
  let ?C = "example_ctx ''{}'' (Some ''s1'')"
  let ?ob = "[(''iss'', JStr ''https://example-issuer.com''),
              (''aud'', JStr ''https://example-relying-party.com''),
              (''exp'', JNum 9999999999),
              (''vp_token'', JStr ''token''), (''presentation_submission'', JObj []),
              (''state'', JStr ''s1'')]"
  let ?ob' = "[(''vp_token'', JStr ''token''), (''presentation_submission'', JObj []),
               (''state'', JStr ''s1'')]"
  have k: "''iss'' \<in> {''iss'', ''aud'', ''exp''}" by simp
  have b: "''iss'' \<in> fst ` set (vJarmAuthResponse ?D)"
    by (simp add: example_deps_def example_base_def)
  have s1: "decryptedResponse ?D ?C ''a.b.c'' = (Inr ''a.b.c'', [])"
    by (simp add: decryptedResponse_def example_deps_def)
  have s2: "isJws ?D ''a.b.c'' \<and> decodeProtectedHeader ?D ''a.b.c'' = Inr example_header
            \<and> decodeJwt ?D ''a.b.c'' = Inr example_payload"
    by (simp add: example_deps_def)
  have s3: "get_member example_payload ''iss'' = None"
    by (simp add: example_payload_def lookup_def)
  have ne: "\<not> vJarmAuthResponseErrorParams ?D example_payload"
    by (simp add: example_defs)
  have v: "v_is (vJarmDirectPostJwtParams ?D) (JObj ?ob)"
    by (simp add: example_defs)
  have f: "filter (\<lambda>(k', v). k' \<notin> {''iss'', ''aud'', ''exp''}) ?ob = ?ob'"
    by simp
  have e1: "decryptedResponse ?D ?C ''a.b.c.d.e''
              = (Inr ''{}'', [DecryptCompact ''a.b.c.d.e'' (JStr ''key-1'')])"
    by (simp add: decryptedResponse_def decryptJarmAuthResponse_def example_deps_def
                  example_ctx_def example_header_def lookup_def)
  have e2: "isJwe ?D ''a.b.c.d.e'' \<and> \<not> isJws ?D ''{}''
            \<and> JSON_parse ?D ''{}'' = Inr (JObj ?ob')"
    by (simp add: example_deps_def example_payload_def)
  note inst = signed_paths_require_iss_aud_exp [OF k b, where c = ?C]
  have w1: "jarmAuthResponseDirectPostJwtValidate ?D ?C ''a.b.c'' = (Inl ValiError, [])"
    using inst [where response = "''a.b.c''" and dr = "''a.b.c''" and tr = "[]"
                 and hdr = example_header and p = example_payload]
          s1 s2 s3 ne by simp
  have w2: "v_is (vJarmDirectPostJwtParams ?D) (JObj ?ob')"
    using inst [where ob = ?ob] v f by simp
  have w3: "\<exists>tr'. snd (jarmAuthResponseDirectPostJwtValidate ?D ?C ''a.b.c.d.e'')
             = [DecryptCompact ''a.b.c.d.e'' (JStr ''key-1''), GetParams (JObj ?ob')] @ tr'"
    using inst [where response = "''a.b.c.d.e''" and dr = "''{}''"
                 and tr = "[DecryptCompact ''a.b.c.d.e'' (JStr ''key-1'')]" and ob = ?ob']
          e1 e2 ne w2 by (simp add: example_payload_def)
  show ?thesis
    using k b s1 s2 s3 w1 v w2 e1 e2 ne w3
    by (simp add: example_payload_def example_signed_payload_def)
qed

subsection \<open>C1: the state\<close>

text \<open>
  C1 as stated fails: a signed response whose header has no \<open>kid\<close> and whose state
  differs from the request's ends in the missing-kid error, not in the state mismatch.
\<close>

theorem state_mismatch_masked_counterexample:
  "getParams (example_ctx ''{}'' (Some ''s2'')) example_signed_payload
     = Inr (example_request (Some ''s2''))
   \<and> state_differs (state (example_request (Some ''s2'')))
         (get_member example_signed_payload ''state'')
   \<and> jarmAuthResponseDirectPostJwtValidate
        (example_deps example_header_without_kid example_signed_payload)
        (example_ctx ''{}'' (Some ''s2'')) ''a.b.c''
       = (Inl (JarmAuthResponseValidationError msg_jws_missing_kid),
          [GetParams example_signed_payload])
   \<and> JarmAuthResponseValidationError msg_jws_missing_kid
       \<noteq> JarmAuthResponseValidationError (msg_state_mismatch (Some ''s2''))"
  by (simp add: run_defs example_defs example_header_without_kid_def
                msg_jws_missing_kid_def msg_state_mismatch_def)

text \<open>
  C1, amended. \<open>jarmAuthResponseEncryptedValidate\<close> throws the state mismatch whenever
  the two states differ. \<open>jarmAuthResponseDirectPostJwtValidate\<close> never returns a result
  whose state differs from that of the request it fetched; it throws the state mismatch
  when the run reaches the validation, that is on a signed path when the header has a
  \<open>kid\<close> and \<open>verifyJwt\<close> succeeds, and on the encrypted-only path always.
\<close>

theorem state_mismatch_refused:
  "(state_differs st (get_member resp ''state'')
      \<longrightarrow> jarmAuthResponseEncryptedValidate st resp
            = Inl (JarmAuthResponseValidationError (msg_state_mismatch st)))
   \<and> (jarmAuthResponseDirectPostJwtValidate im c response = (Inr r, tr)
      \<longrightarrow> getParams c (authResponseParams r) = Inr (authRequestParams r)
          \<and> \<not> state_differs (state (authRequestParams r))
                 (get_member (authResponseParams r) ''state''))
   \<and> (decryptedResponse im c response = (Inr dr, tr0) \<and> isJws im dr
        \<and> decodeProtectedHeader im dr = Inr hdr \<and> lookup hdr ''kid'' = Some kid \<and> \<not> falsy kid
        \<and> decodeJwt im dr = Inr p
        \<and> parseJarmAuthResponseParams im
             (v_required (vJarmDirectPostJwtParams im) [''iss'', ''aud'', ''exp'']) p = Inr resp
        \<and> getParams c resp = Inr req \<and> verifyJwt c dr kid = Inr ()
        \<and> state_differs (state req) (get_member resp ''state'')
      \<longrightarrow> jarmAuthResponseDirectPostJwtValidate im c response
            = (Inl (JarmAuthResponseValidationError (msg_state_mismatch (state req))),
               tr0 @ [GetParams resp, VerifyJwt dr kid, ValidateParams (state req) resp]))
   \<and> (decryptedResponse im c response = (Inr dr, tr0) \<and> isJwe im response \<and> \<not> isJws im dr
        \<and> JSON_parse im dr = Inr p
        \<and> parseJarmAuthResponseParams im (vJarmDirectPostJwtParams im) p = Inr resp
        \<and> getParams c resp = Inr req
        \<and> state_differs (state req) (get_member resp ''state'')
      \<longrightarrow> jarmAuthResponseDirectPostJwtValidate im c response
            = (Inl (JarmAuthResponseValidationError (msg_state_mismatch (state req))),
               tr0 @ [GetParams resp, ValidateParams (state req) resp]))"
proof -
  have a: "jarmAuthResponseEncryptedValidate st resp
            = Inl (JarmAuthResponseValidationError (msg_state_mismatch st))"
    if "state_differs st (get_member resp ''state'')"
    using that by (simp add: jarmAuthResponseEncryptedValidate_def)
  have b: "getParams c (authResponseParams r) = Inr (authRequestParams r)
          \<and> \<not> state_differs (state (authRequestParams r))
                 (get_member (authResponseParams r) ''state'')"
    if "jarmAuthResponseDirectPostJwtValidate im c response = (Inr r, tr)"
    using that
    by (auto simp: jarmAuthResponseDirectPostJwtValidate_def signed_branch_def
                   unsigned_branch_def jarmAuthResponseDirectPostValidateParams_def Let_def
             split: prod.splits sum.splits if_splits option.splits)
  have c: "jarmAuthResponseDirectPostJwtValidate im c response
            = (Inl (JarmAuthResponseValidationError (msg_state_mismatch (state req))),
               tr0 @ [GetParams resp, VerifyJwt dr kid, ValidateParams (state req) resp])"
    if "decryptedResponse im c response = (Inr dr, tr0)" "isJws im dr"
       "decodeProtectedHeader im dr = Inr hdr" "lookup hdr ''kid'' = Some kid" "\<not> falsy kid"
       "decodeJwt im dr = Inr p"
       "parseJarmAuthResponseParams im
             (v_required (vJarmDirectPostJwtParams im) [''iss'', ''aud'', ''exp'']) p = Inr resp"
       "getParams c resp = Inr req" "verifyJwt c dr kid = Inr ()"
       "state_differs (state req) (get_member resp ''state'')"
    using that
    by (simp add: jarmAuthResponseDirectPostJwtValidate_def signed_branch_def
                  jarmAuthResponseDirectPostValidateParams_def Let_def)
  have d: "jarmAuthResponseDirectPostJwtValidate im c response
            = (Inl (JarmAuthResponseValidationError (msg_state_mismatch (state req))),
               tr0 @ [GetParams resp, ValidateParams (state req) resp])"
    if "decryptedResponse im c response = (Inr dr, tr0)" "isJwe im response" "\<not> isJws im dr"
       "JSON_parse im dr = Inr p"
       "parseJarmAuthResponseParams im (vJarmDirectPostJwtParams im) p = Inr resp"
       "getParams c resp = Inr req"
       "state_differs (state req) (get_member resp ''state'')"
    using that
    by (simp add: jarmAuthResponseDirectPostJwtValidate_def unsigned_branch_def
                  jarmAuthResponseDirectPostValidateParams_def Let_def)
  show ?thesis using a b c d by blast
qed

theorem state_mismatch_refused_witness:
  "state_differs (Some ''s2'') (get_member example_payload ''state'')
   \<and> jarmAuthResponseEncryptedValidate (Some ''s2'') example_payload
       = Inl (JarmAuthResponseValidationError (msg_state_mismatch (Some ''s2'')))
   \<and> jarmAuthResponseDirectPostJwtValidate (example_deps example_header example_signed_payload)
        (example_ctx ''{}'' (Some ''s2'')) ''a.b.c''
       = (Inl (JarmAuthResponseValidationError (msg_state_mismatch (Some ''s2''))),
          [GetParams example_signed_payload, VerifyJwt ''a.b.c'' (JStr ''key-1''),
           ValidateParams (Some ''s2'') example_signed_payload])
   \<and> jarmAuthResponseDirectPostJwtValidate (example_deps example_header example_payload)
        (example_ctx ''{}'' (Some ''s2'')) ''a.b.c.d.e''
       = (Inl (JarmAuthResponseValidationError (msg_state_mismatch (Some ''s2''))),
          [DecryptCompact ''a.b.c.d.e'' (JStr ''key-1''), GetParams example_payload,
           ValidateParams (Some ''s2'') example_payload])
   \<and> jarmAuthResponseDirectPostJwtValidate (example_deps example_header example_signed_payload)
        (example_ctx ''x.y.z'' (Some ''s2'')) ''a.b.c.d.e''
       = (Inl (JarmAuthResponseValidationError (msg_state_mismatch (Some ''s2''))),
          [DecryptCompact ''a.b.c.d.e'' (JStr ''key-1''), GetParams example_signed_payload,
           VerifyJwt ''x.y.z'' (JStr ''key-1''),
           ValidateParams (Some ''s2'') example_signed_payload])
   \<and> getParams (example_ctx ''{}'' (Some ''s1'')) example_signed_payload
       = Inr (example_request (Some ''s1''))
   \<and> \<not> state_differs (Some ''s1'') (get_member example_signed_payload ''state'')"
proof -
  let ?S = "example_deps example_header example_signed_payload"
  let ?E = "example_deps example_header example_payload"
  let ?C = "example_ctx ''{}'' (Some ''s2'')"
  let ?X = "example_ctx ''x.y.z'' (Some ''s2'')"
  have d1: "state_differs (Some ''s2'') (get_member example_payload ''state'')"
    by (simp add: example_defs)
  have d2: "state_differs (state (example_request (Some ''s2'')))
              (get_member example_signed_payload ''state'')"
    by (simp add: example_defs)
  have d3: "state_differs (state (example_request (Some ''s2'')))
              (get_member example_payload ''state'')"
    by (simp add: example_defs)
  have hdr: "lookup example_header ''kid'' = Some (JStr ''key-1'') \<and> \<not> falsy (JStr ''key-1'')"
    by (simp add: example_header_def lookup_def)
  have ps: "parseJarmAuthResponseParams ?S
              (v_required (vJarmDirectPostJwtParams ?S) [''iss'', ''aud'', ''exp''])
              example_signed_payload = Inr example_signed_payload"
    by (simp add: parseJarmAuthResponseParams_def example_defs)
  have pe: "parseJarmAuthResponseParams ?E (vJarmDirectPostJwtParams ?E) example_payload
              = Inr example_payload"
    by (simp add: parseJarmAuthResponseParams_def example_defs)
  have e1: "decryptedResponse ?E ?C ''a.b.c.d.e''
              = (Inr ''{}'', [DecryptCompact ''a.b.c.d.e'' (JStr ''key-1'')])"
    by (simp add: decryptedResponse_def decryptJarmAuthResponse_def example_deps_def
                  example_ctx_def example_header_def lookup_def)
  have x1: "decryptedResponse ?S ?X ''a.b.c.d.e''
              = (Inr ''x.y.z'', [DecryptCompact ''a.b.c.d.e'' (JStr ''key-1'')])"
    by (simp add: decryptedResponse_def decryptJarmAuthResponse_def example_deps_def
                  example_ctx_def example_header_def lookup_def)
  have s1: "decryptedResponse ?S ?C ''a.b.c'' = (Inr ''a.b.c'', [])"
    by (simp add: decryptedResponse_def example_deps_def)
  have w1: "jarmAuthResponseEncryptedValidate (Some ''s2'') example_payload
              = Inl (JarmAuthResponseValidationError (msg_state_mismatch (Some ''s2'')))"
    using state_mismatch_refused [where st = "Some ''s2''" and resp = example_payload] d1
    by simp
  have w2: "jarmAuthResponseDirectPostJwtValidate ?S ?C ''a.b.c''
       = (Inl (JarmAuthResponseValidationError (msg_state_mismatch (Some ''s2''))),
          [GetParams example_signed_payload, VerifyJwt ''a.b.c'' (JStr ''key-1''),
           ValidateParams (Some ''s2'') example_signed_payload])"
    using state_mismatch_refused [where im = ?S and c = ?C and response = "''a.b.c''"
            and dr = "''a.b.c''" and ?tr0.0 = "[]" and hdr = example_header
            and kid = "JStr ''key-1''" and p = example_signed_payload
            and resp = example_signed_payload and req = "example_request (Some ''s2'')"]
          s1 hdr ps d2
    by (simp add: example_deps_def example_ctx_def example_request_def)
  have w3: "jarmAuthResponseDirectPostJwtValidate ?E ?C ''a.b.c.d.e''
       = (Inl (JarmAuthResponseValidationError (msg_state_mismatch (Some ''s2''))),
          [DecryptCompact ''a.b.c.d.e'' (JStr ''key-1''), GetParams example_payload,
           ValidateParams (Some ''s2'') example_payload])"
    using state_mismatch_refused [where im = ?E and c = ?C and response = "''a.b.c.d.e''"
            and dr = "''{}''" and ?tr0.0 = "[DecryptCompact ''a.b.c.d.e'' (JStr ''key-1'')]"
            and p = example_payload
            and resp = example_payload and req = "example_request (Some ''s2'')"]
          e1 pe d3
    by (simp add: example_deps_def example_ctx_def example_request_def)
  have w4: "jarmAuthResponseDirectPostJwtValidate ?S ?X ''a.b.c.d.e''
       = (Inl (JarmAuthResponseValidationError (msg_state_mismatch (Some ''s2''))),
          [DecryptCompact ''a.b.c.d.e'' (JStr ''key-1''), GetParams example_signed_payload,
           VerifyJwt ''x.y.z'' (JStr ''key-1''),
           ValidateParams (Some ''s2'') example_signed_payload])"
    using state_mismatch_refused [where im = ?S and c = ?X and response = "''a.b.c.d.e''"
            and dr = "''x.y.z''" and ?tr0.0 = "[DecryptCompact ''a.b.c.d.e'' (JStr ''key-1'')]"
            and hdr = example_header
            and kid = "JStr ''key-1''" and p = example_signed_payload
            and resp = example_signed_payload and req = "example_request (Some ''s2'')"]
          x1 hdr ps d2
    by (simp add: example_deps_def example_ctx_def example_request_def)
  have w5: "getParams (example_ctx ''{}'' (Some ''s1'')) example_signed_payload
              = Inr (example_request (Some ''s1''))
            \<and> \<not> state_differs (Some ''s1'') (get_member example_signed_payload ''state'')"
    using state_mismatch_refused [where im = ?S and c = "example_ctx ''{}'' (Some ''s1'')"
            and response = "''a.b.c''"
            and r = "example_result example_signed_payload ''signed''"]
          example_run_signed
    by (simp add: example_result_def example_request_def)
  show ?thesis using d1 w1 w2 w3 w4 w5 by simp
qed

section \<open>Properties of key generation\<close>

lemma rsa_switch:
  assumes "alg input \<in> set rsa_algs"
  shows "\<exists>nm h us. generateKeyPair_switch input =
           (case getModulusLengthOption input of
              Inl e \<Rightarrow> Inl e
            | Inr m \<Rightarrow> Inr (RsaHashedKeyGenParams nm h [0x01, 0x00, 0x01] m, us))"
proof -
  consider "alg input \<in> set [''PS256'', ''PS384'', ''PS512'']"
    | "alg input \<in> set [''RS256'', ''RS384'', ''RS512'']"
    | "alg input \<in> set [''RSA-OAEP'', ''RSA-OAEP-256'', ''RSA-OAEP-384'', ''RSA-OAEP-512'']"
    using assms unfolding rsa_algs_def by auto
  then show ?thesis
  proof cases
    case 1
    then show ?thesis unfolding generateKeyPair_switch_def Let_def
      by (simp only: if_True) blast
  next
    case 2
    then have "alg input \<notin> set [''PS256'', ''PS384'', ''PS512'']" by auto
    with 2 show ?thesis unfolding generateKeyPair_switch_def Let_def
      by (simp only: if_True if_False) blast
  next
    case 3
    then have "alg input \<notin> set [''PS256'', ''PS384'', ''PS512'']"
      and "alg input \<notin> set [''RS256'', ''RS384'', ''RS512'']" by auto
    with 3 show ?thesis unfolding generateKeyPair_switch_def Let_def
      by (simp only: if_True if_False) blast
  qed
qed

lemma getModulusLengthOption_cases:
  "getModulusLengthOption input =
     (case modulusLength input of
        Undefined \<Rightarrow> Inr (Finite 2048)
      | Null \<Rightarrow> Inr (Finite 2048)
      | Number n \<Rightarrow> if js_less n (Finite 2048) then Inl (Error msg_modulusLength) else Inr n
      | _ \<Rightarrow> Inl (Error msg_modulusLength))"
  by (cases "modulusLength input") (simp_all add: getModulusLengthOption_def)

lemma oaep_sha1: "decimal (or_1 (parseInt10 (slice_last3 ''RSA-OAEP''))) = ''1''"
  by code_simp

lemma example_oaep_switch:
  "generateKeyPair_switch (example_input ''RSA-OAEP'' m)
     = (case getModulusLengthOption (example_input ''RSA-OAEP'' m) of
          Inl e \<Rightarrow> Inl e
        | Inr k \<Rightarrow> Inr (RsaHashedKeyGenParams ''RSA-OAEP'' ''SHA-1'' [0x01, 0x00, 0x01] k,
                     [''decrypt'', ''unwrapKey'', ''encrypt'', ''wrapKey'']))"
  by (simp add: generateKeyPair_switch_def example_input_def oaep_sha1 Let_def split: sum.splits)

text \<open>
  C7 as stated fails: \<open>null\<close> is not a number, and \<open>null ?? 2048\<close> is \<open>2048\<close>, so an
  RSA key pair is generated with the default length.
\<close>

theorem rsa_null_modulus_counterexample:
  "alg (example_input ''RS256'' Null) \<in> set rsa_algs
   \<and> modulusLength (example_input ''RS256'' Null) = Null
   \<and> typeof Null \<noteq> ''number''
   \<and> generateKeyPair example_generateKey (example_input ''RS256'' Null)
       = Inr (RsaHashedKeyGenParams ''RSASSA-PKCS1-v1_5'' ''SHA-256'' [0x01, 0x00, 0x01] (Finite 2048),
              False, [''sign'', ''verify''])"
  by (simp add: rsa_algs_def generateKeyPair_def generateKeyPair_switch_def example_input_def
                getModulusLengthOption_def example_generateKey_def slice_last3_def)

text \<open>
  C7, amended. For each of the ten RSA algorithms: a \<open>modulusLength\<close> that is neither
  \<open>undefined\<close> nor \<open>null\<close> and is not of type number, or is a number smaller than
  \<open>2048\<close>, makes \<open>generateKeyPair\<close> throw the error about the modulus length, and the
  host's \<open>generateKey\<close> is not reached; with \<open>modulusLength\<close> absent (\<open>undefined\<close>) or
  \<open>null\<close> the key is generated with modulus length \<open>2048\<close>; a number that is not smaller
  than \<open>2048\<close> is passed on as it is.
\<close>

theorem rsa_modulus_length:
  assumes "alg input \<in> set rsa_algs"
  shows "(modulusLength input \<noteq> Undefined \<and> modulusLength input \<noteq> Null
          \<and> (typeof (modulusLength input) \<noteq> ''number''
              \<or> (\<exists>n. modulusLength input = Number n \<and> js_less n (Finite 2048)))
         \<longrightarrow> generateKeyPair generateKey input = Inl (Error msg_modulusLength))
    \<and> (modulusLength input = Undefined \<or> modulusLength input = Null
         \<longrightarrow> (\<exists>nm h us. generateKeyPair generateKey input
                 = generateKey (RsaHashedKeyGenParams nm h [0x01, 0x00, 0x01] (Finite 2048))
                     (case extractable input of None \<Rightarrow> False | Some b \<Rightarrow> b) us))
    \<and> (modulusLength input = Number n \<and> \<not> js_less n (Finite 2048)
         \<longrightarrow> (\<exists>nm h us. generateKeyPair generateKey input
                 = generateKey (RsaHashedKeyGenParams nm h [0x01, 0x00, 0x01] n)
                     (case extractable input of None \<Rightarrow> False | Some b \<Rightarrow> b) us))"
proof -
  from rsa_switch [OF assms] obtain nm h us where sw:
    "generateKeyPair_switch input =
       (case getModulusLengthOption input of
          Inl e \<Rightarrow> Inl e
        | Inr m \<Rightarrow> Inr (RsaHashedKeyGenParams nm h [0x01, 0x00, 0x01] m, us))"
    by blast
  have gk: "generateKeyPair generateKey input =
       (case getModulusLengthOption input of
          Inl e \<Rightarrow> Inl e
        | Inr m \<Rightarrow> generateKey (RsaHashedKeyGenParams nm h [0x01, 0x00, 0x01] m)
                    (case extractable input of None \<Rightarrow> False | Some b \<Rightarrow> b) us)"
    by (simp add: generateKeyPair_def sw split: sum.splits)
  show ?thesis
  proof (cases "modulusLength input")
    case Undefined
    then show ?thesis by (auto simp: gk getModulusLengthOption_cases)
  next
    case Null
    then show ?thesis by (auto simp: gk getModulusLengthOption_cases)
  next
    case (Number m)
    then show ?thesis by (auto simp: gk getModulusLengthOption_cases)
  qed (simp_all add: gk getModulusLengthOption_cases)
qed

theorem rsa_modulus_length_witness:
  "alg (example_input ''RSA-OAEP'' (Number (Finite 1024))) \<in> set rsa_algs
   \<and> js_less (Finite 1024) (Finite 2048)
   \<and> generateKeyPair example_generateKey (example_input ''RSA-OAEP'' (Number (Finite 1024)))
       = Inl (Error msg_modulusLength)
   \<and> typeof (String ''4096'') \<noteq> ''number''
   \<and> generateKeyPair example_generateKey (example_input ''RSA-OAEP'' (String ''4096''))
       = Inl (Error msg_modulusLength)
   \<and> generateKeyPair example_generateKey (example_input ''RSA-OAEP'' Undefined)
       = Inr (RsaHashedKeyGenParams ''RSA-OAEP'' ''SHA-1'' [0x01, 0x00, 0x01] (Finite 2048),
              False, [''decrypt'', ''unwrapKey'', ''encrypt'', ''wrapKey''])
   \<and> \<not> js_less (Finite 4096) (Finite 2048)
   \<and> generateKeyPair example_generateKey (example_input ''RSA-OAEP'' (Number (Finite 4096)))
       = Inr (RsaHashedKeyGenParams ''RSA-OAEP'' ''SHA-1'' [0x01, 0x00, 0x01] (Finite 4096),
              False, [''decrypt'', ''unwrapKey'', ''encrypt'', ''wrapKey''])"
proof -
  have a: "alg (example_input ''RSA-OAEP'' m) \<in> set rsa_algs" for m
    by (simp add: rsa_algs_def example_input_def)
  have m: "modulusLength (example_input ''RSA-OAEP'' m) = m
           \<and> extractable (example_input ''RSA-OAEP'' m) = None" for m
    by (simp add: example_input_def)
  have r1: "generateKeyPair example_generateKey (example_input ''RSA-OAEP'' (Number (Finite 1024)))
              = Inl (Error msg_modulusLength)"
    using rsa_modulus_length [OF a, of "Number (Finite 1024)" example_generateKey] by (simp add: m)
  have r2: "generateKeyPair example_generateKey (example_input ''RSA-OAEP'' (String ''4096''))
              = Inl (Error msg_modulusLength)"
    using rsa_modulus_length [OF a, of "String ''4096''" example_generateKey] by (simp add: m)
  have r3: "generateKeyPair example_generateKey (example_input ''RSA-OAEP'' Undefined)
       = Inr (RsaHashedKeyGenParams ''RSA-OAEP'' ''SHA-1'' [0x01, 0x00, 0x01] (Finite 2048),
              False, [''decrypt'', ''unwrapKey'', ''encrypt'', ''wrapKey''])"
    using rsa_modulus_length [OF a, of Undefined example_generateKey]
    by (simp add: generateKeyPair_def example_oaep_switch getModulusLengthOption_def
                  example_generateKey_def m)
  have r4: "generateKeyPair example_generateKey (example_input ''RSA-OAEP'' (Number (Finite 4096)))
       = Inr (RsaHashedKeyGenParams ''RSA-OAEP'' ''SHA-1'' [0x01, 0x00, 0x01] (Finite 4096),
              False, [''decrypt'', ''unwrapKey'', ''encrypt'', ''wrapKey''])"
    using rsa_modulus_length [OF a, of "Number (Finite 4096)" example_generateKey "Finite 4096"]
    by (simp add: generateKeyPair_def example_oaep_switch getModulusLengthOption_def
                  example_generateKey_def m)
  show ?thesis using a r1 r2 r3 r4 by simp
qed

section \<open>Properties of the PEM export\<close>

lemma upper_public: "toUpperCase ''public'' = ''PUBLIC''"
  by code_simp

text \<open>
  C8 as stated fails in the message: \<open>genericExport\<close> tests \<open>extractable\<close> before the
  key type, so a private key that is not extractable is refused with
  \<open>CryptoKey is not extractable\<close>.
\<close>

theorem toPKCS8_not_extractable_counterexample:
  "key_type (CryptoKey ''private'' False ''ECDSA'') = ''private''
   \<and> toPKCS8 example_export_deps (IsCryptoKey (CryptoKey ''private'' False ''ECDSA''))
       = Inl (TypeError ''CryptoKey is not extractable'')
   \<and> TypeError ''CryptoKey is not extractable'' \<noteq> TypeError ''key is not a public key''"
  by (simp add: toPKCS8_def genericExport_def)

text \<open>
  C8, amended. \<open>toPKCS8\<close> hands \<open>keyType: 'public'\<close> to \<open>genericExport\<close>. For every
  \<open>CryptoKey\<close> that is not public, so for every private key, it throws a \<open>TypeError\<close>
  and gives no PEM: \<open>CryptoKey is not extractable\<close> when the key is not extractable,
  \<open>key is not a public key\<close> otherwise. When it does return, the key was an extractable
  public key, exported in the \<open>pkcs8\<close> format under the label \<open>PUBLIC KEY\<close>.
\<close>

theorem toPKCS8_never_exports_private:
  "(key_type k \<noteq> ''public''
      \<longrightarrow> toPKCS8 d (IsCryptoKey k)
            = Inl (TypeError (if key_extractable k then ''key is not a public key''
                              else ''CryptoKey is not extractable'')))
   \<and> (toPKCS8 d key = Inr pem
      \<longrightarrow> (\<exists>k' exported. key = IsCryptoKey k' \<and> key_extractable k' \<and> key_type k' = ''public''
             \<and> exportKey d ''pkcs8'' k' = Inr exported
             \<and> pem = formatPEM d (uint8ArrayToBase64 d exported) ''PUBLIC KEY''))"
  by (auto simp: toPKCS8_def genericExport_def upper_public
           split: key_argument.splits if_splits sum.splits)

theorem toPKCS8_never_exports_private_witness:
  "key_type (CryptoKey ''private'' True ''ECDSA'') \<noteq> ''public''
   \<and> toPKCS8 example_export_deps (IsCryptoKey (CryptoKey ''private'' True ''ECDSA''))
       = Inl (TypeError ''key is not a public key'')
   \<and> toPKCS8 example_export_deps (IsCryptoKey (CryptoKey ''private'' False ''ECDSA''))
       = Inl (TypeError ''CryptoKey is not extractable'')
   \<and> toPKCS8 example_export_deps (IsCryptoKey (CryptoKey ''public'' True ''ECDSA''))
       = Inr ''-----BEGIN PUBLIC KEY----- MAA= -----END PUBLIC KEY-----''
   \<and> exportKey example_export_deps ''pkcs8'' (CryptoKey ''public'' True ''ECDSA'') = Inr [0x30, 0x00]"
proof -
  have p: "toPKCS8 example_export_deps (IsCryptoKey (CryptoKey ''public'' True ''ECDSA''))
       = Inr ''-----BEGIN PUBLIC KEY----- MAA= -----END PUBLIC KEY-----''"
    by (simp add: toPKCS8_def genericExport_def example_export_deps_def upper_public)
  show ?thesis
    using toPKCS8_never_exports_private
            [of "CryptoKey ''private'' True ''ECDSA''" example_export_deps
                "IsCryptoKey (CryptoKey ''public'' True ''ECDSA'')"
                "''-----BEGIN PUBLIC KEY----- MAA= -----END PUBLIC KEY-----''"]
          toPKCS8_never_exports_private
            [of "CryptoKey ''private'' False ''ECDSA''" example_export_deps]
          p
    by (simp add: example_export_deps_def)
qed

section \<open>Properties of the ASN.1 walk\<close>

subsection \<open>Skipping the identifier octets\<close>

lemma byte_at_append_right: "byte_at (pre @ x # rest) (length pre) = Some x"
  by (simp add: byte_at_def)

lemma tag_loop_skip:
  assumes "list_all (\<lambda>x. 0x80 \<le> x) ms" and "l < 0x80"
  shows "snd (tag_loop (pre @ ms @ l # rest) t (length pre)) = length pre + length ms"
  using assms
proof (induction ms arbitrary: pre t)
  case Nil
  then show ?case
    by (subst tag_loop.simps) (auto simp: byte_at_append_right ge_0x80_def)
next
  case (Cons x ms)
  have step: "snd (tag_loop ((pre @ [x]) @ ms @ l # rest) t' (length (pre @ [x])))
                = length (pre @ [x]) + length ms" for t'
    using Cons.IH [of "pre @ [x]" t'] Cons.prems by simp
  have at: "byte_at (pre @ x # ms @ l # rest) (length pre) = Some x"
    by (rule byte_at_append_right)
  show ?case
    using Cons.prems step
    by (subst tag_loop.simps) (simp add: at ge_0x80_def)
qed

lemma band_is_0x1f: "(int (band (Some b) 0x1f) = 0x1f) = (b AND 0x1f = 0x1f)"
proof -
  have "(int (unat (b AND 0x1f)) = int (unat (0x1f :: byte))) = (b AND 0x1f = 0x1f)"
    by (simp only: of_nat_eq_iff word_unat_eq_iff)
  then show ?thesis by (simp add: band_def)
qed

lemma read_tag_position:
  assumes "wf_identifier i"
  shows "snd (read_tag (i @ rest)) = length i"
proof (cases i)
  case Nil
  with assms show ?thesis by simp
next
  case (Cons b bs)
  show ?thesis
  proof (cases bs)
    case Nil
    with Cons assms have "b AND 0x1f \<noteq> 0x1f" by simp
    with Cons Nil show ?thesis
      using band_is_0x1f [of b]
      by (simp add: read_tag_def byte_at_def Let_def)
  next
    case (Cons b' bs')
    with \<open>i = b # bs\<close> assms have b: "b AND 0x1f = 0x1f"
      and all: "list_all (\<lambda>x. 0x80 \<le> x) (butlast bs)" and low: "last bs < 0x80" by auto
    define ms l where "ms = butlast bs" and "l = last bs"
    have i: "i = b # ms @ [l]"
      using Cons \<open>i = b # bs\<close> by (simp add: ms_def l_def)
    have "snd (tag_loop ([b] @ ms @ l # rest) (Some 0) (length [b])) = length [b] + length ms"
      using all low unfolding ms_def l_def by (rule tag_loop_skip)
    then have "snd (tag_loop (b # ms @ l # rest) (Some 0) (Suc 0)) = Suc (length ms)"
      by simp
    then show ?thesis
      using band_is_0x1f [of b] b
      by (auto simp: i read_tag_def byte_at_def Let_def split: prod.splits)
  qed
qed

subsection \<open>Reading the length octets\<close>

lemma digits_loop_value:
  "digits_loop (pre @ ds @ rest) (length ds) (Some acc) (length pre)
     = (Some (foldl (\<lambda>a b. a * 256 + unat b) acc ds), length pre + length ds)"
proof (induction ds arbitrary: pre acc)
  case Nil
  then show ?case by simp
next
  case (Cons d ds)
  have "digits_loop ((pre @ [d]) @ ds @ rest) (length ds) (Some (acc * 256 + unat d))
          (length (pre @ [d]))
        = (Some (foldl (\<lambda>a b. a * 256 + unat b) (acc * 256 + unat d) ds),
           length (pre @ [d]) + length ds)"
    by (rule Cons.IH)
  then show ?case by (simp add: byte_at_append_right)
qed

lemma be_digits_value: "foldl (\<lambda>a b. a * 256 + unat b) 0 (be_digits n) = n"
proof (induction n rule: be_digits.induct)
  case (1 n)
  show ?case
  proof (cases "n = 0")
    case True
    then show ?thesis by (simp add: be_digits.simps)
  next
    case False
    have "unat (of_nat (n mod 256) :: byte) = n mod 256"
      by (simp add: unat_of_nat)
    with False 1 show ?thesis
      by (subst be_digits.simps) simp
  qed
qed

lemma be_digits_length: "n < 256 ^ k \<Longrightarrow> length (be_digits n) \<le> k"
proof (induction k arbitrary: n)
  case 0
  then show ?case by (simp add: be_digits.simps)
next
  case (Suc k)
  then have "n div 256 < 256 ^ k" by (simp add: less_mult_imp_div_less mult.commute)
  then have "length (be_digits (n div 256)) \<le> k" by (rule Suc.IH)
  then show ?case by (subst be_digits.simps) simp
qed

lemma unat_octet: "n < 256 \<Longrightarrow> unat (of_nat n :: byte) = n"
  by (simp only: unat_of_nat) simp

lemma long_form_octet:
  assumes "unat (h :: byte) = 128 + k"
  shows "\<not> lt_0x80 (Some h)" and "band (Some h) 0x7f = k"
proof -
  have "unat (0x80 :: byte) \<le> unat h"
    by (simp only: assms) simp
  then have "(0x80 :: byte) \<le> h"
    by (simp only: word_le_nat_alt)
  then show "\<not> lt_0x80 (Some h)"
    by (simp add: lt_0x80_def not_less)
  have k: "k < 128" using unsigned_less [of h, where ?'a = nat] assms by simp
  have "uint h = 128 + int k" using assms by (simp add: uint_nat)
  then have "uint h mod 2 ^ 7 = int k" using k by simp
  then have "h AND mask 7 = of_nat k"
    by (simp only: and_mask_mod_2p) simp
  moreover have "(0x7f :: byte) = mask 7" by (simp add: mask_eq_exp_minus_1)
  ultimately have "unat (h AND 0x7f) = k"
    using k unat_octet [of k] by simp
  then show "band (Some h) 0x7f = k"
    by (simp add: band_def)
qed

lemma short_form_octet:
  assumes "unat (h :: byte) < 128"
  shows "lt_0x80 (Some h)"
proof -
  have "unat h < unat (0x80 :: byte)" using assms by simp
  then have "h < 0x80" by (simp only: word_less_nat_alt)
  then show ?thesis by (simp add: lt_0x80_def)
qed

subsection \<open>parseElement reads back an encoded element\<close>

lemma subarray_middle:
  "subarray (pre @ mid @ post) (length pre) (Some (length pre + length mid)) = mid"
  by (simp add: subarray_def Let_def min_def)

lemma subarray_prefix: "subarray (pre @ post) 0 (Some (length pre)) = pre"
  by (simp add: subarray_def Let_def min_def)

lemma parseElement_short:
  assumes "wf_identifier i" and "unat (h :: byte) < 128" and "length c = unat h"
  shows "parseElement (i @ h # c @ rest)
           = Inr \<lparr> byteLength = Some (length (i @ h # c)), contents = c, raw = i @ h # c \<rparr>"
proof -
  obtain t where rt: "read_tag (i @ h # c @ rest) = (t, length i)"
    using read_tag_position [OF assms(1), of "h # c @ rest"]
    by (cases "read_tag (i @ h # c @ rest)") simp
  have at: "byte_at (i @ h # c @ rest) (length i) = Some h"
    by (rule byte_at_append_right)
  have c: "subarray (i @ h # c @ rest) (Suc (length i)) (Some (Suc (length i + unat h))) = c"
    using subarray_middle [of "i @ [h]" c rest] assms(3) by simp
  have r: "subarray (i @ h # c @ rest) 0 (Some (Suc (length i + unat h))) = i @ h # c"
    using subarray_prefix [of "i @ h # c" rest] assms(3) by simp
  show ?thesis
    using short_form_octet [OF assms(2)] assms(3)
    by (simp add: parseElement_def rt at c r Let_def)
qed

lemma parseElement_long:
  assumes "wf_identifier i" and "unat (h :: byte) = 128 + length ds"
    and "foldl (\<lambda>a b. a * 256 + unat b) 0 ds = length c"
  shows "parseElement (i @ h # ds @ c @ rest)
           = Inr \<lparr> byteLength = Some (length (i @ h # ds @ c)), contents = c,
                   raw = i @ h # ds @ c \<rparr>"
proof -
  let ?bytes = "i @ h # ds @ c @ rest"
  obtain t where rt: "read_tag ?bytes = (t, length i)"
    using read_tag_position [OF assms(1), of "h # ds @ c @ rest"]
    by (cases "read_tag ?bytes") simp
  have at: "byte_at ?bytes (length i) = Some h"
    by (rule byte_at_append_right)
  have dl: "digits_loop ?bytes (length ds) (Some 0) (Suc (length i))
              = (Some (length c), Suc (length i) + length ds)"
    using digits_loop_value [of "i @ [h]" ds "c @ rest" 0] assms(3) by simp
  have c: "subarray ?bytes (Suc (length i + length ds))
             (Some (Suc (length i + length ds + length c))) = c"
    using subarray_middle [of "i @ h # ds" c rest] by (simp add: add.assoc)
  have r: "subarray ?bytes 0 (Some (Suc (length i + length ds + length c))) = i @ h # ds @ c"
    using subarray_prefix [of "i @ h # ds @ c" rest] by (simp add: add.assoc)
  show ?thesis
    using long_form_octet [OF assms(2)]
    by (simp add: parseElement_def rt at dl c r Let_def)
qed

lemma parseElement_der:
  assumes "wf_tlv (i, c)"
  shows "parseElement (der i c @ rest) = Inr (der_element (i, c))"
proof (cases "length c < 128")
  case True
  then have "unat (of_nat (length c) :: byte) = length c" by (simp add: unat_octet)
  with True assms show ?thesis
    using parseElement_short [of i "of_nat (length c)" c rest]
    by (simp add: der_def der_length_def der_element_def wf_tlv_def)
next
  case False
  define ds where "ds = be_digits (length c)"
  have "length c < 256 ^ 7" using assms by (simp add: wf_tlv_def)
  then have "length ds \<le> 7" unfolding ds_def by (rule be_digits_length)
  then have "128 + length ds < 256" by simp
  then have h: "unat (of_nat (128 + length ds) :: byte) = 128 + length ds"
    by (rule unat_octet)
  have v: "foldl (\<lambda>a b. a * 256 + unat b) 0 ds = length c"
    unfolding ds_def by (rule be_digits_value)
  have "der i c = i @ of_nat (128 + length ds) # ds @ c"
    using False by (simp add: der_def der_length_def ds_def)
  then show ?thesis
    using parseElement_long [OF _ h v, of i rest] assms
    by (simp add: der_element_def wf_tlv_def)
qed

subsection \<open>getElement reads back a sequence of encoded elements\<close>

lemma der_all_Cons: "der_all ((i, c) # es) = der i c @ der_all es"
  by (simp add: der_all_def)

lemma der_nonempty: "der i c \<noteq> []"
  by (simp add: der_def der_length_def)

lemma parseElement_total: "\<exists>el. parseElement bytes = Inr el"
  by (simp add: parseElement_def Let_def split: prod.splits)

lemma getElement_loop_extends: "\<exists>more. getElement_loop seq next acc = Inr (acc @ more)"
proof (induction seq "next" acc rule: getElement_loop.induct)
  case (1 seq "next" result)
  show ?case
  proof (cases "next < length seq")
    case False
    then show ?thesis by (subst getElement_loop.simps) simp
  next
    case True
    obtain el where el: "parseElement (drop next seq) = Inr el"
      using parseElement_total by blast
    show ?thesis
    proof (cases "byteLength el")
      case None
      with True el show ?thesis by (subst getElement_loop.simps) simp
    next
      case (Some n)
      from "1.IH" [OF True el Some]
      obtain more where "getElement_loop seq (next + n) (result @ [el]) = Inr ((result @ [el]) @ more)"
        by blast
      with True el Some show ?thesis by (subst getElement_loop.simps) simp
    qed
  qed
qed

lemma getElement_loop_der:
  assumes "list_all wf_tlv es"
  shows "getElement_loop (pre @ der_all es) (length pre) acc = Inr (acc @ map der_element es)"
  using assms
proof (induction es arbitrary: pre acc)
  case Nil
  then show ?case by (subst getElement_loop.simps) (simp add: der_all_def)
next
  case (Cons e es)
  obtain i c where e: "e = (i, c)" by (cases e)
  have wf: "wf_tlv (i, c)" and rest: "list_all wf_tlv es" using Cons.prems e by simp_all
  have seq: "pre @ der_all (e # es) = (pre @ der i c) @ der_all es"
    by (simp add: der_all_def e)
  have lt: "length pre < length (pre @ der_all (e # es))"
    using der_nonempty [of i c] by (simp add: der_all_def e)
  have parse: "parseElement (drop (length pre) (pre @ der_all (e # es))) = Inr (der_element (i, c))"
    using parseElement_der [OF wf, of "der_all es"] by (simp add: der_all_def e)
  have bl: "byteLength (der_element (i, c)) = Some (length (der i c))"
    by (simp add: der_element_def)
  have "getElement_loop ((pre @ der i c) @ der_all es) (length (pre @ der i c))
          (acc @ [der_element (i, c)])
        = Inr ((acc @ [der_element (i, c)]) @ map der_element es)"
    using rest by (rule Cons.IH)
  then have next_step: "getElement_loop (pre @ der_all (e # es)) (length pre + length (der i c))
          (acc @ [der_element (i, c)]) = Inr (acc @ der_element e # map der_element es)"
    by (simp add: e der_all_Cons)
  show ?case
    by (subst getElement_loop.simps) (simp only: lt parse bl next_step if_True sum.case option.case list.map)
qed

lemma getElement_der: "list_all wf_tlv es \<Longrightarrow> getElement (der_all es) = Inr (map der_element es)"
  using getElement_loop_der [of es "[]" "[]"] by (simp add: getElement_def)

lemma getElement_first:
  assumes "wf_tlv (i, c)"
  shows "\<exists>more. getElement (der i c @ rest) = Inr (der_element (i, c) # more)"
proof -
  have lt: "0 < length (der i c @ rest)" using der_nonempty [of i c] by simp
  have parse: "parseElement (drop 0 (der i c @ rest)) = Inr (der_element (i, c))"
    using parseElement_der [OF assms, of rest] by simp
  have bl: "byteLength (der_element (i, c)) = Some (length (der i c))"
    by (simp add: der_element_def)
  obtain more where "getElement_loop (der i c @ rest) (0 + length (der i c)) ([] @ [der_element (i, c)])
                       = Inr (([] @ [der_element (i, c)]) @ more)"
    using getElement_loop_extends by blast
  then show ?thesis
    unfolding getElement_def
    by (subst getElement_loop.simps) (simp only: lt parse bl if_True sum.case option.case, simp)
qed

lemma byte_at_0: "xs \<noteq> [] \<Longrightarrow> byte_at xs 0 = Some (hd xs)"
  by (cases xs) (simp_all add: byte_at_def)

subsection \<open>C9: the SubjectPublicKeyInfo of a certificate\<close>

text \<open>
  C9. Take a DER-encoded certificate: an outer element whose contents begin with the
  element of the tbsCertificate, which holds the encodings of the elements \<open>tbs\<close>.
  When the first raw byte of the first of them is \<open>0xa0\<close>, \<open>spkiFromX509\<close> returns the
  base64 of the whole encoding (the raw bytes) of the element at index 6, and otherwise
  of the element at index 5; when there is no element at that index it throws.
\<close>

theorem spkiFromX509_der:
  assumes "wf_tlv (outer, der inner (der_all tbs) @ rest)"
    and "wf_tlv (inner, der_all tbs)"
    and "list_all wf_tlv tbs"
    and "tbs = (i, c) # others"
  shows "spkiFromX509 toBase64 (der outer (der inner (der_all tbs) @ rest) @ trailing)
           = (let n = (if hd (der i c) = 0xa0 then 6 else 5)
              in if n < length tbs
                 then Inr (toBase64 (der (fst (tbs ! n)) (snd (tbs ! n))))
                 else Inl (TypeError msg_undefined))"
proof -
  have p: "parseElement (der outer (der inner (der_all tbs) @ rest) @ trailing)
             = Inr (der_element (outer, der inner (der_all tbs) @ rest))"
    using assms(1) by (rule parseElement_der)
  obtain els where g1: "getElement (der inner (der_all tbs) @ rest)
                          = Inr (der_element (inner, der_all tbs) # els)"
    using getElement_first [OF assms(2)] by blast
  have g2: "getElement (der_all tbs) = Inr (der_element (i, c) # map der_element others)"
    using getElement_der [OF assms(3)] by (simp add: assms(4))
  have c1: "contents (der_element (outer, der inner (der_all tbs) @ rest))
              = der inner (der_all tbs) @ rest"
    and c2: "contents (der_element (inner, der_all tbs)) = der_all tbs"
    by (simp_all add: der_element_def)
  have first: "byte_at (raw (der_element (i, c))) 0 = Some (hd (der i c))"
    using der_nonempty [of i c] by (simp add: der_element_def byte_at_0)
  have len: "length (der_element (i, c) # map der_element others) = length tbs"
    by (simp add: assms(4))
  have nth: "raw ((der_element (i, c) # map der_element others) ! n)
               = der (fst (tbs ! n)) (snd (tbs ! n))"
    if "n < length tbs" for n
  proof -
    have "(der_element (i, c) # map der_element others) ! n = der_element (tbs ! n)"
      using that nth_map [of n tbs der_element] by (simp add: assms(4))
    then show ?thesis by (simp add: der_element_def)
  qed
  have run: "spkiFromX509 toBase64 (der outer (der inner (der_all tbs) @ rest) @ trailing)
           = (let n = (if hd (der i c) = 0xa0 then 6 else 5)
              in if n < length tbs
                 then Inr (toBase64 (raw ((der_element (i, c) # map der_element others) ! n)))
                 else Inl (TypeError msg_undefined))"
    by (simp only: spkiFromX509_def p c1 g1 c2 g2 first len sum.case list.case Let_def
                   option.inject)
  show ?thesis
    unfolding run Let_def using nth [of 6] nth [of 5] by (simp only: split: if_splits) simp
qed

lemmas der_defs = der_def der_length_def der_all_def wf_tlv_def example_tbs_v1_def example_tbs_v3_def

theorem spkiFromX509_der_witness:
  "wf_tlv ([0x30], der [0x30] (der_all example_tbs_v3) @ [0x30, 0x00])
   \<and> wf_tlv ([0x30], der_all example_tbs_v3)
   \<and> list_all wf_tlv example_tbs_v3
   \<and> example_tbs_v3 = ([0xa0], [0x02, 0x01, 0x02]) # example_tbs_v1
   \<and> hd (der [0xa0] [0x02, 0x01, 0x02]) = 0xa0
   \<and> spkiFromX509 example_toBase64
        (der [0x30] (der [0x30] (der_all example_tbs_v3) @ [0x30, 0x00]))
       = Inr (example_toBase64 [0x30, 0x03, 0x03, 0x01, 0x00])
   \<and> wf_tlv ([0x30], der [0x30] (der_all example_tbs_v1) @ [0x30, 0x00])
   \<and> wf_tlv ([0x30], der_all example_tbs_v1)
   \<and> list_all wf_tlv example_tbs_v1
   \<and> example_tbs_v1 = ([0x02], [0x01]) # tl example_tbs_v1
   \<and> hd (der [0x02] [0x01]) \<noteq> 0xa0
   \<and> spkiFromX509 example_toBase64
        (der [0x30] (der [0x30] (der_all example_tbs_v1) @ [0x30, 0x00]))
       = Inr (example_toBase64 [0x30, 0x03, 0x03, 0x01, 0x00])"
proof -
  have a3: "wf_tlv ([0x30], der [0x30] (der_all example_tbs_v3) @ [0x30, 0x00])"
    and b3: "wf_tlv ([0x30], der_all example_tbs_v3)"
    and c3: "list_all wf_tlv example_tbs_v3"
    and a1: "wf_tlv ([0x30], der [0x30] (der_all example_tbs_v1) @ [0x30, 0x00])"
    and b1: "wf_tlv ([0x30], der_all example_tbs_v1)"
    and c1: "list_all wf_tlv example_tbs_v1"
    by (simp_all add: der_defs)
  have h3: "hd (der [0xa0] [0x02, 0x01, 0x02]) = 0xa0" and h1: "hd (der [0x02] [0x01]) \<noteq> 0xa0"
    by (simp_all add: der_def)
  have r3: "spkiFromX509 example_toBase64
              (der [0x30] (der [0x30] (der_all example_tbs_v3) @ [0x30, 0x00]))
            = Inr (example_toBase64 [0x30, 0x03, 0x03, 0x01, 0x00])"
    using spkiFromX509_der [OF a3 b3 c3, of "[0xa0]" "[0x02, 0x01, 0x02]" example_tbs_v1
                              example_toBase64 "[]"] h3
    by (simp add: example_tbs_v3_def example_tbs_v1_def der_def der_length_def)
  have r1: "spkiFromX509 example_toBase64
              (der [0x30] (der [0x30] (der_all example_tbs_v1) @ [0x30, 0x00]))
            = Inr (example_toBase64 [0x30, 0x03, 0x03, 0x01, 0x00])"
    using spkiFromX509_der [OF a1 b1 c1, of "[0x02]" "[0x01]" "tl example_tbs_v1"
                              example_toBase64 "[]"] h1
    by (simp add: example_tbs_v1_def der_def der_length_def)
  have e3: "example_tbs_v3 = ([0xa0], [0x02, 0x01, 0x02]) # example_tbs_v1"
    and e1: "example_tbs_v1 = ([0x02], [0x01]) # tl example_tbs_v1"
    by (simp_all add: example_tbs_v3_def example_tbs_v1_def)
  show ?thesis using a3 b3 c3 h3 r3 a1 b1 c1 h1 r1 e3 e1 by simp
qed

end
